theory Spec2Isabelle
  imports Complex_Main "HOL-Library.Sublist"
begin

section \<open>The notebook's class \<open>FacialDetectionModel\<close>\<close>

text \<open>
  The repository is one notebook, \<open>src/tfmodel.ipynb\<close>, whose second cell defines the class
  \<open>FacialDetectionModel\<close>. Its methods are sequences of calls into libraries (os, numpy,
  datasets, Keras, matplotlib, subprocess). The embedding keeps every such call: a call that
  returns is appended to a log, a call that raises ends the method with that exception. What a
  library does inside a call is not the repository's code; it is either a parameter of the
  model (\<open>env\<close>) or, where a property depends on it, a definition marked as modelled.

  Python floats are written as the reals their decimal literals denote; the code only passes
  them on.
\<close>

subsection \<open>Exceptions\<close>

datatype py_error =
    KeyError string
  | IndexError
  | ValueError
  | AttributeError
  | FileExistsError
  | LibraryError string

subsection \<open>Data\<close>

text \<open>
  A split of the dataset holds the two columns the class reads. A column the split lacks is
  \<open>None\<close>; indexing it raises \<open>KeyError\<close>.
\<close>

record split =
  embedding :: "real list list option"
  label :: "int list option"

type_synonym dataset_dict = "string \<rightharpoonup> split"

datatype regularizer = L2 real

datatype layer =
    Input "int list"
  | Dense int string "regularizer option"
  | Dropout real

datatype optimizer = Adam real real

datatype metric = MetricName string | Precision | Recall | AUC

record compile_config =
  optimizer :: optimizer
  loss :: string
  metrics :: "metric list"

text \<open>
  A Keras model as far as the class determines it: the layers given to \<open>Sequential\<close> and
  the arguments of \<open>compile\<close> (\<open>None\<close> until \<open>compile\<close> has returned). The weights are the
  framework's own state and are not modelled.
\<close>

record keras_model =
  layers :: "layer list"
  compiled :: "compile_config option"

datatype callback =
    EarlyStopping string int bool
  | ReduceLROnPlateau string real int real
  | TensorBoard string int int
  | ModelCheckpoint string string bool

record fit_args =
  fit_x :: "real list list"
  fit_y :: "real list list"
  fit_validation_data :: "real list list \<times> real list list"
  fit_epochs :: int
  fit_batch_size :: int
  fit_callbacks :: "callback list"
  fit_verbose :: int

text \<open>The object \<open>fit\<close> returns; its attribute \<open>history\<close> is a dict from metric name to values.\<close>

record History =
  history :: "string \<rightharpoonup> real list"

datatype plt_call =
    Figure "int \<times> int"
  | Subplot int int int
  | Plot "real list"
  | Title string
  | Ylabel string
  | Xlabel string
  | Legend "string list" string
  | TightLayout
  | Savefig string
  | Close

datatype process = Process "string list"

text \<open>The library calls the class makes, with their arguments.\<close>

datatype call =
    OsMakedirs string bool
  | NpArrayEmbedding "real list list"
  | NpArrayLabel "int list"
  | ToCategorical "int list" int
  | NewLayer layer
  | Sequential "layer list"
  | NewOptimizer optimizer
  | NewMetric metric
  | Compile keras_model compile_config
  | Summary keras_model
  | Print string
  | NewCallback callback
  | OsPathJoin string string
  | Fit keras_model fit_args
  | Plt plt_call
  | Popen "string list"

subsection \<open>State\<close>

record facial_detection_model =
  model :: "keras_model option"
  input_shape :: "int list"
  num_classes :: int
  log_dir :: string

datatype node = File | Dir

text \<open>
  \<open>this\<close> is the instance the methods are called on (\<open>self\<close>); \<open>datasets\<close> holds the dataset
  objects, a method receives a reference into it; \<open>fs\<close> is the file system as \<open>os.makedirs\<close>
  sees it; \<open>trace\<close> lists the library calls that have returned, in order; \<open>raised\<close> lists the
  exceptions that were raised inside library calls.
\<close>

record world =
  this :: facial_detection_model
  datasets :: "nat \<Rightarrow> dataset_dict"
  fs :: "string \<rightharpoonup> node"
  trace :: "call list"
  raised :: "py_error list"

text \<open>
  What the libraries do and the repository cannot see: whether a call raises (for a reason of
  the library's own, such as a shape mismatch or an I/O error), and the history \<open>fit\<close>
  returns.
\<close>

record env =
  raises :: "world \<Rightarrow> call \<Rightarrow> py_error option"
  fit_returns :: "world \<Rightarrow> keras_model \<Rightarrow> fit_args \<Rightarrow> History"

definition never_raises :: "env \<Rightarrow> bool" where
  "never_raises E \<longleftrightarrow> (\<forall>w c. raises E w c = None)"

subsection \<open>Statements in sequence, exceptions\<close>

type_synonym 'a py = "world \<Rightarrow> (py_error + 'a) \<times> world"

definition py_return :: "'a \<Rightarrow> 'a py" where
  "py_return a w = (Inr a, w)"

definition throw :: "py_error \<Rightarrow> 'a py" where
  "throw e w = (Inl e, w\<lparr>raised := raised w @ [e]\<rparr>)"

text \<open>\<open>py_bind m f\<close> runs \<open>m\<close>, then \<open>f\<close> on its value; an exception of \<open>m\<close> skips \<open>f\<close>.\<close>

definition py_bind :: "'a py \<Rightarrow> ('a \<Rightarrow> 'b py) \<Rightarrow> 'b py" where
  "py_bind m f w = (case m w of (Inl e, w') \<Rightarrow> (Inl e, w') | (Inr a, w') \<Rightarrow> f a w')"

definition py_then :: "unit py \<Rightarrow> 'b py \<Rightarrow> 'b py" where
  "py_then m k = py_bind m (\<lambda>_. k)"

text \<open>
  \<open>ext E c r\<close> is the library call \<open>c\<close> whose modelled outcome in the world \<open>w\<close> is \<open>r w\<close>:
  the call raises when the library says so or when the outcome is an exception; otherwise it
  is logged and returns its value.
\<close>

definition ext :: "env \<Rightarrow> call \<Rightarrow> (world \<Rightarrow> py_error + 'a) \<Rightarrow> 'a py" where
  "ext E c r w =
     (case raises E w c of
        Some e \<Rightarrow> throw e w
      | None \<Rightarrow> (case r w of
                  Inl e \<Rightarrow> throw e w
                | Inr a \<Rightarrow> (Inr a, w\<lparr>trace := trace w @ [c]\<rparr>)))"

text \<open>Calls whose value the class does not use, one after the other.\<close>

fun exts :: "env \<Rightarrow> call list \<Rightarrow> unit py" where
  "exts E [] = py_return ()"
| "exts E (c # cs) = py_then (ext E c (\<lambda>_. Inr ())) (exts E cs)"

definition get_this :: "facial_detection_model py" where
  "get_this w = (Inr (this w), w)"

definition set_this :: "facial_detection_model \<Rightarrow> unit py" where
  "set_this s w = (Inr (), w\<lparr>this := s\<rparr>)"

definition set_model :: "keras_model option \<Rightarrow> unit py" where
  "set_model m w = (Inr (), w\<lparr>this := (this w)\<lparr>model := m\<rparr>\<rparr>)"

definition set_fs :: "(string \<rightharpoonup> node) \<Rightarrow> unit py" where
  "set_fs f w = (Inr (), w\<lparr>fs := f\<rparr>)"

subsection \<open>Library functions the properties depend on\<close>

text \<open>
  Modelled from the spec: \<open>os.makedirs(name, exist_ok)\<close> is the Python standard library's and
  is not under src/. With \<open>exist_ok\<close> an existing directory is left as it is; a path that is
  a regular file raises \<open>FileExistsError\<close>; a path that does not exist becomes a directory.
  Paths are whole strings: the creation of missing parent directories is not shown, and any
  other failure of the operating system is a raise of \<open>env\<close>.
\<close>

definition os_makedirs :: "string \<Rightarrow> bool \<Rightarrow> (string \<rightharpoonup> node) \<Rightarrow> py_error + (string \<rightharpoonup> node)" where
  "os_makedirs name exist_ok f =
     (case f name of
        Some Dir \<Rightarrow> if exist_ok then Inr f else Inl FileExistsError
      | Some File \<Rightarrow> Inl FileExistsError
      | None \<Rightarrow> Inr (f(name \<mapsto> Dir)))"

text \<open>
  Modelled from the spec: the row \<open>tf.keras.utils.to_categorical\<close> makes for the label \<open>l\<close> with
  \<open>n\<close> classes, a vector of \<open>n\<close> zeros in which the entry at the label's index is set to 1.
  The function is the framework's and is not under src/. An index in \<open>[-n, 0)\<close> counts from
  the end, as in the framework's arrays.
\<close>

definition one_hot_row :: "int \<Rightarrow> int \<Rightarrow> real list" where
  "one_hot_row n l = (replicate (nat n) 0)[nat (if l < 0 then l + n else l) := 1]"

text \<open>
  Modelled from the spec: \<open>tf.keras.utils.to_categorical(x, num_classes)\<close> is the framework's
  and is not under src/. The glossary fixes its result for a label inside the class range: a
  vector of \<open>num_classes\<close> entries, 1 at the label's index and 0 elsewhere. Outside that range
  the spec is silent and the model follows the framework: a class count of 0 is replaced by
  the largest label plus 1 (\<open>ValueError\<close> when there is no label), a negative class count
  raises \<open>ValueError\<close>, a label outside \<open>[-n, n)\<close> raises \<open>IndexError\<close>.
\<close>

definition to_categorical :: "int list \<Rightarrow> int \<Rightarrow> py_error + real list list" where
  "to_categorical ls n0 =
     (if n0 = 0 \<and> ls = [] then Inl ValueError
      else let n = (if n0 = 0 then Max (set ls) + 1 else n0) in
        if n < 0 then Inl ValueError
        else if list_all (\<lambda>l. - n \<le> l \<and> l < n) ls then Inr (map (one_hot_row n) ls)
        else Inl IndexError)"

text \<open>
  Modelled from the spec: \<open>os.path.join(a, b)\<close> is the Python standard library's and is not
  under src/; this is its POSIX rule for two components, which names \<open>b\<close> under \<open>a\<close> unless \<open>b\<close>
  is absolute.
\<close>

definition os_path_join :: "string \<Rightarrow> string \<Rightarrow> string" where
  "os_path_join a b =
     (if b \<noteq> [] \<and> hd b = CHR ''/'' then b
      else if a = [] \<or> last a = CHR ''/'' then a @ b
      else a @ ''/'' @ b)"

subsection \<open>\<open>__init__\<close>\<close>

text \<open>An argument left out is \<open>None\<close> and takes the default of the signature.\<close>

definition init :: "env \<Rightarrow> int list option \<Rightarrow> int option \<Rightarrow> string option \<Rightarrow> unit py" where
  "init E input_shape_arg num_classes_arg log_dir_arg =
     (let input_shape' = (case input_shape_arg of None \<Rightarrow> [512] | Some s \<Rightarrow> s);
          num_classes' = (case num_classes_arg of None \<Rightarrow> 10 | Some n \<Rightarrow> n);
          log_dir' = (case log_dir_arg of None \<Rightarrow> ''./logs'' | Some d \<Rightarrow> d)
      in py_then
           (set_this \<lparr>model = None, input_shape = input_shape',
                      num_classes = num_classes', log_dir = log_dir'\<rparr>)
           (py_bind (ext E (OsMakedirs log_dir' True) (\<lambda>w. os_makedirs log_dir' True (fs w)))
              set_fs))"

subsection \<open>\<open>prepare_dataset\<close>\<close>

text \<open>\<open>dataset[k]\<close> for the dataset object at reference \<open>d\<close>.\<close>

definition getitem_split :: "nat \<Rightarrow> string \<Rightarrow> split py" where
  "getitem_split d k w =
     (case datasets w d k of None \<Rightarrow> throw (KeyError k) w | Some sp \<Rightarrow> (Inr sp, w))"

text \<open>\<open>np.array(dataset[k]['embedding'])\<close> and \<open>np.array(dataset[k]['label'])\<close>.\<close>

definition array_of_embedding :: "env \<Rightarrow> nat \<Rightarrow> string \<Rightarrow> real list list py" where
  "array_of_embedding E d k =
     py_bind (getitem_split d k) (\<lambda>sp.
       case embedding sp of
         None \<Rightarrow> throw (KeyError ''embedding'')
       | Some col \<Rightarrow> ext E (NpArrayEmbedding col) (\<lambda>_. Inr col))"

definition array_of_label :: "env \<Rightarrow> nat \<Rightarrow> string \<Rightarrow> int list py" where
  "array_of_label E d k =
     py_bind (getitem_split d k) (\<lambda>sp.
       case label sp of
         None \<Rightarrow> throw (KeyError ''label'')
       | Some col \<Rightarrow> ext E (NpArrayLabel col) (\<lambda>_. Inr col))"

definition prepare_dataset ::
  "env \<Rightarrow> nat \<Rightarrow> (real list list \<times> real list list \<times> real list list \<times> real list list) py" where
  "prepare_dataset E d =
     py_bind (array_of_embedding E d ''train'') (\<lambda>X_train.
     py_bind (array_of_label E d ''train'') (\<lambda>y_train.
     py_bind (array_of_embedding E d ''test'') (\<lambda>X_test.
     py_bind (array_of_label E d ''test'') (\<lambda>y_test.
     py_bind get_this (\<lambda>self.
     py_bind (ext E (ToCategorical y_train (num_classes self))
                (\<lambda>_. to_categorical y_train (num_classes self))) (\<lambda>y_train'.
     py_bind get_this (\<lambda>self.
     py_bind (ext E (ToCategorical y_test (num_classes self))
                (\<lambda>_. to_categorical y_test (num_classes self))) (\<lambda>y_test'.
     py_return (X_train, y_train', X_test, y_test')))))))))"

subsection \<open>\<open>build_model\<close>\<close>

text \<open>
  The list given to \<open>models.Sequential\<close>. Each layer is constructed (a call of its own, the
  regularizer with it) before \<open>Sequential\<close> is called.
\<close>

definition model_layers :: "facial_detection_model \<Rightarrow> layer list" where
  "model_layers self =
     [Input (input_shape self),
      Dense 264 ''relu'' (Some (L2 (1 / 10000))),
      Dropout (4 / 10),
      Dense 128 ''relu'' (Some (L2 (1 / 10000))),
      Dropout (4 / 10),
      Dense 64 ''relu'' (Some (L2 (1 / 10000))),
      Dropout (3 / 10),
      Dense (num_classes self) ''softmax'' None]"

definition compile_args :: "real \<Rightarrow> compile_config" where
  "compile_args learning_rate =
     \<lparr>optimizer = Adam learning_rate 1,
      loss = ''categorical_crossentropy'',
      metrics = [MetricName ''accuracy'', Precision, Recall, AUC]\<rparr>"

text \<open>
  \<open>self.model.compile(...)\<close> and \<open>self.model.summary()\<close> read the attribute \<open>self.model\<close>; on
  \<open>None\<close> the attribute access raises \<open>AttributeError\<close>. \<open>summary()\<close> returns \<open>None\<close>, which is
  what \<open>print\<close> receives.
\<close>

definition build_model :: "env \<Rightarrow> real option \<Rightarrow> unit py" where
  "build_model E learning_rate_arg =
     (let learning_rate = (case learning_rate_arg of None \<Rightarrow> 1 / 1000 | Some r \<Rightarrow> r) in
      py_bind get_this (\<lambda>self.
      py_then (exts E (map NewLayer (model_layers self) @ [Sequential (model_layers self)]))
     (py_then (set_model (Some \<lparr>layers = model_layers self, compiled = None\<rparr>))
     (py_then (ext E (NewOptimizer (Adam learning_rate 1)) (\<lambda>_. Inr ()))
     (py_bind get_this (\<lambda>self.
        case model self of
          None \<Rightarrow> throw AttributeError
        | Some m \<Rightarrow>
            py_then (exts E [NewMetric Precision, NewMetric Recall, NewMetric AUC,
                             Compile m (compile_args learning_rate)])
           (py_then (set_model (Some (m\<lparr>compiled := Some (compile_args learning_rate)\<rparr>)))
           (py_bind get_this (\<lambda>self.
              case model self of
                None \<Rightarrow> throw AttributeError
              | Some m' \<Rightarrow> exts E [Summary m', Print ''None''])))))))))"

subsection \<open>\<open>train\<close>\<close>

definition train :: "env \<Rightarrow> nat \<Rightarrow> int option \<Rightarrow> int option \<Rightarrow> History py" where
  "train E d epochs_arg batch_size_arg =
     (let epochs' = (case epochs_arg of None \<Rightarrow> 100 | Some n \<Rightarrow> n);
          batch_size' = (case batch_size_arg of None \<Rightarrow> 8 | Some n \<Rightarrow> n) in
      py_bind (prepare_dataset E d) (\<lambda>(X_train, y_train, X_test, y_test).
      py_bind get_this (\<lambda>self.
      py_then (if model self = None then build_model E None else py_return ())
     (py_bind get_this (\<lambda>self.
      py_then (exts E [NewCallback (EarlyStopping ''val_loss'' 10 True),
                       NewCallback (ReduceLROnPlateau ''val_loss'' (1 / 2) 5 (1 / 100000)),
                       NewCallback (TensorBoard (log_dir self) 1 0)])
     (py_bind (ext E (OsPathJoin (log_dir self) ''best_model.keras'')
                 (\<lambda>_. Inr (os_path_join (log_dir self) ''best_model.keras''))) (\<lambda>filepath.
      py_then (ext E (NewCallback (ModelCheckpoint filepath ''val_accuracy'' True)) (\<lambda>_. Inr ()))
     (let callbacks_list =
            [EarlyStopping ''val_loss'' 10 True,
             ReduceLROnPlateau ''val_loss'' (1 / 2) 5 (1 / 100000),
             TensorBoard (log_dir self) 1 0,
             ModelCheckpoint filepath ''val_accuracy'' True] in
      py_bind get_this (\<lambda>self.
        case model self of
          None \<Rightarrow> throw AttributeError
        | Some m \<Rightarrow>
            (let args = \<lparr>fit_x = X_train, fit_y = y_train,
                         fit_validation_data = (X_test, y_test),
                         fit_epochs = epochs', fit_batch_size = batch_size',
                         fit_callbacks = callbacks_list, fit_verbose = 1\<rparr>
             in ext E (Fit m args) (\<lambda>w. Inr (fit_returns E w m args))))))))))))"

subsection \<open>\<open>plot_training_history\<close>\<close>

text \<open>\<open>history.history[k]\<close>.\<close>

definition history_getitem :: "History \<Rightarrow> string \<Rightarrow> real list py" where
  "history_getitem h k =
     (case history h k of None \<Rightarrow> throw (KeyError k) | Some v \<Rightarrow> py_return v)"

definition plot_training_history :: "env \<Rightarrow> History \<Rightarrow> unit py" where
  "plot_training_history E h =
     py_then (exts E [Plt (Figure (10, 5)), Plt (Subplot 1 2 1)])
    (py_bind (history_getitem h ''accuracy'') (\<lambda>v1.
     py_then (ext E (Plt (Plot v1)) (\<lambda>_. Inr ()))
    (py_bind (history_getitem h ''val_accuracy'') (\<lambda>v2.
     py_then (exts E [Plt (Plot v2), Plt (Title ''Model Accuracy''), Plt (Ylabel ''Accuracy''),
                      Plt (Xlabel ''Epoch''),
                      Plt (Legend [''Train'', ''Validation''] ''lower right''),
                      Plt (Subplot 1 2 2)])
    (py_bind (history_getitem h ''loss'') (\<lambda>v3.
     py_then (ext E (Plt (Plot v3)) (\<lambda>_. Inr ()))
    (py_bind (history_getitem h ''val_loss'') (\<lambda>v4.
     exts E [Plt (Plot v4), Plt (Title ''Model Loss''), Plt (Ylabel ''Loss''),
             Plt (Xlabel ''Epoch''),
             Plt (Legend [''Train'', ''Validation''] ''upper right''),
             Plt TightLayout, Plt (Savefig ''training_history.png''), Plt Close]))))))))"

subsection \<open>\<open>run_tensorboard\<close>\<close>

definition run_tensorboard :: "env \<Rightarrow> process py" where
  "run_tensorboard E =
     py_bind get_this (\<lambda>self.
     py_bind (ext E (Popen [''tensorboard'', ''--logdir'', log_dir self])
                (\<lambda>_. Inr (Process [''tensorboard'', ''--logdir'', log_dir self])))
       (\<lambda>tensorboard_process.
     py_then (ext E (Print ''TensorBoard running. Open http://localhost:6006 in your browser.'')
                (\<lambda>_. Inr ()))
       (py_return tensorboard_process)))"

section \<open>Vocabulary of the properties\<close>

text \<open>The library calls a method makes when started in \<open>w\<close>: what it appends to the log.\<close>

definition calls_of :: "'a py \<Rightarrow> world \<Rightarrow> call list" where
  "calls_of m w = drop (length (trace w)) (trace (snd (m w)))"

text \<open>The calls of each method when none of them raises, in the order of the source.\<close>

definition prepare_calls ::
  "real list list \<Rightarrow> int list \<Rightarrow> real list list \<Rightarrow> int list \<Rightarrow> int \<Rightarrow> call list" where
  "prepare_calls Xtr ytr Xte yte n =
     [NpArrayEmbedding Xtr, NpArrayLabel ytr, NpArrayEmbedding Xte, NpArrayLabel yte,
      ToCategorical ytr n, ToCategorical yte n]"

definition assembly_calls :: "facial_detection_model \<Rightarrow> call list" where
  "assembly_calls self = map NewLayer (model_layers self) @ [Sequential (model_layers self)]"

definition compilation_calls :: "facial_detection_model \<Rightarrow> real \<Rightarrow> call list" where
  "compilation_calls self lr =
     [NewOptimizer (Adam lr 1), NewMetric Precision, NewMetric Recall, NewMetric AUC,
      Compile \<lparr>layers = model_layers self, compiled = None\<rparr> (compile_args lr),
      Summary \<lparr>layers = model_layers self, compiled = Some (compile_args lr)\<rparr>,
      Print ''None'']"

definition four_callbacks :: "string \<Rightarrow> callback list" where
  "four_callbacks dir =
     [EarlyStopping ''val_loss'' 10 True,
      ReduceLROnPlateau ''val_loss'' (1 / 2) 5 (1 / 100000),
      TensorBoard dir 1 0,
      ModelCheckpoint (os_path_join dir ''best_model.keras'') ''val_accuracy'' True]"

definition callback_calls :: "string \<Rightarrow> call list" where
  "callback_calls dir =
     [NewCallback (EarlyStopping ''val_loss'' 10 True),
      NewCallback (ReduceLROnPlateau ''val_loss'' (1 / 2) 5 (1 / 100000)),
      NewCallback (TensorBoard dir 1 0),
      OsPathJoin dir ''best_model.keras'',
      NewCallback (ModelCheckpoint (os_path_join dir ''best_model.keras'') ''val_accuracy'' True)]"

definition plot_calls :: "real list \<Rightarrow> real list \<Rightarrow> real list \<Rightarrow> real list \<Rightarrow> call list" where
  "plot_calls v1 v2 v3 v4 =
     map Plt
       [Figure (10, 5), Subplot 1 2 1, Plot v1, Plot v2, Title ''Model Accuracy'',
        Ylabel ''Accuracy'', Xlabel ''Epoch'', Legend [''Train'', ''Validation''] ''lower right'',
        Subplot 1 2 2, Plot v3, Plot v4, Title ''Model Loss'', Ylabel ''Loss'', Xlabel ''Epoch'',
        Legend [''Train'', ''Validation''] ''upper right'', TightLayout,
        Savefig ''training_history.png'', Close]"

text \<open>
  The model \<open>train\<close> fits: the one the instance has, or the one \<open>build_model()\<close> makes; and
  the calls of \<open>train\<close> before \<open>fit\<close> when none raises.
\<close>

definition fitted_model :: "facial_detection_model \<Rightarrow> keras_model" where
  "fitted_model self =
     (case model self of
        None \<Rightarrow> \<lparr>layers = model_layers self, compiled = Some (compile_args (1 / 1000))\<rparr>
      | Some m \<Rightarrow> m)"

definition calls_before_fit ::
  "facial_detection_model \<Rightarrow> real list list \<Rightarrow> int list \<Rightarrow> real list list \<Rightarrow> int list \<Rightarrow> call list" where
  "calls_before_fit self Xtr ytr Xte yte =
     prepare_calls Xtr ytr Xte yte (num_classes self) @
     (if model self = None then assembly_calls self @ compilation_calls self (1 / 1000) else []) @
     callback_calls (log_dir self)"

text \<open>The arguments \<open>train\<close> gives to \<open>fit\<close>, for the arrays of \<open>prepare_dataset\<close>.\<close>

definition fit_arguments ::
  "real list list \<Rightarrow> real list list \<Rightarrow> real list list \<Rightarrow> real list list \<Rightarrow>
   int option \<Rightarrow> int option \<Rightarrow> string \<Rightarrow> fit_args" where
  "fit_arguments X_train y_train X_test y_test epochs_arg batch_size_arg dir =
     \<lparr>fit_x = X_train, fit_y = y_train, fit_validation_data = (X_test, y_test),
      fit_epochs = (case epochs_arg of None \<Rightarrow> 100 | Some n \<Rightarrow> n),
      fit_batch_size = (case batch_size_arg of None \<Rightarrow> 8 | Some n \<Rightarrow> n),
      fit_callbacks = four_callbacks dir, fit_verbose = 1\<rparr>"

text \<open>The width of a layer's output: the units of a dense layer.\<close>

definition units :: "layer \<Rightarrow> int option" where
  "units l = (case l of Dense u _ _ \<Rightarrow> Some u | _ \<Rightarrow> None)"

text \<open>
  The path a call hands to a library that writes files there: the directory of the
  TensorBoard event files, the checkpoint file, the figure file. \<open>os.makedirs\<close> creates a
  directory, not a file.
\<close>

fun writes :: "call \<Rightarrow> string option" where
  "writes (NewCallback (TensorBoard dir _ _)) = Some dir"
| "writes (NewCallback (ModelCheckpoint filepath _ _)) = Some filepath"
| "writes (Plt (Savefig fname)) = Some fname"
| "writes _ = None"

definition writes_within :: "string list \<Rightarrow> call \<Rightarrow> bool" where
  "writes_within ps c = (case writes c of None \<Rightarrow> True | Some p \<Rightarrow> p \<in> set ps)"

text \<open>A call that starts another process, which then runs beside the caller.\<close>

definition spawns :: "call \<Rightarrow> bool" where
  "spawns c = (case c of Popen _ \<Rightarrow> True | _ \<Rightarrow> False)"

definition synchronous :: "call \<Rightarrow> bool" where
  "synchronous c \<longleftrightarrow> \<not> spawns c"


text \<open>Two states of the instance that differ at most in \<open>model\<close>.\<close>

definition same_but_model :: "facial_detection_model \<Rightarrow> facial_detection_model \<Rightarrow> bool" where
  "same_but_model s t \<longleftrightarrow>
     input_shape s = input_shape t \<and> num_classes s = num_classes t \<and> log_dir s = log_dir t"

text \<open>The calls of model assembly and of compilation.\<close>

definition assembles :: "call \<Rightarrow> bool" where
  "assembles c = (case c of NewLayer _ \<Rightarrow> True | Sequential _ \<Rightarrow> True | _ \<Rightarrow> False)"

definition compiles :: "call \<Rightarrow> bool" where
  "compiles c =
     (case c of NewOptimizer _ \<Rightarrow> True | NewMetric _ \<Rightarrow> True | Compile _ _ \<Rightarrow> True | _ \<Rightarrow> False)"

definition no_build :: "call \<Rightarrow> bool" where
  "no_build c \<longleftrightarrow> \<not> assembles c \<and> \<not> compiles c"

text \<open>
  \<open>keeps I m\<close>: the method \<open>m\<close> preserves \<open>I\<close>, whether it returns or raises. \<open>frame w0 P M\<close>
  relates a world to the world \<open>w0\<close> a method started in: the log has grown by calls that
  satisfy \<open>P\<close>; of the instance only \<open>model\<close> may differ, and it satisfies \<open>M\<close>; the dataset
  objects and the file system are the same.
\<close>

definition keeps :: "(world \<Rightarrow> bool) \<Rightarrow> 'a py \<Rightarrow> bool" where
  "keeps I m \<longleftrightarrow> (\<forall>w. I w \<longrightarrow> I (snd (m w)))"

definition frame ::
  "world \<Rightarrow> (call \<Rightarrow> bool) \<Rightarrow> (keras_model option \<Rightarrow> bool) \<Rightarrow> world \<Rightarrow> bool" where
  "frame w0 P M w \<longleftrightarrow>
     (\<exists>cs. trace w = trace w0 @ cs \<and> list_all P cs) \<and>
     M (model (this w)) \<and>
     input_shape (this w) = input_shape (this w0) \<and>
     num_classes (this w) = num_classes (this w0) \<and>
     log_dir (this w) = log_dir (this w0) \<and>
     datasets w = datasets w0 \<and> fs w = fs w0"

text \<open>
  \<open>propagates m\<close>: started with no exception raised, \<open>m\<close> ends with the exception \<open>e\<close> exactly
  when \<open>e\<close> is the one exception that was raised, and returns exactly when none was.
\<close>

definition propagates :: "'a py \<Rightarrow> bool" where
  "propagates m \<longleftrightarrow>
     (\<forall>w. raised w = [] \<longrightarrow>
        (case m w of (Inl e, w') \<Rightarrow> raised w' = [e] | (Inr a, w') \<Rightarrow> raised w' = []))"

section \<open>Concrete runs\<close>

text \<open>Libraries that never raise; \<open>fit\<close> returns the four curves of one epoch.\<close>

definition one_epoch :: History where
  "one_epoch =
     \<lparr>history = [''accuracy'' \<mapsto> [1 / 2], ''val_accuracy'' \<mapsto> [1 / 2],
                 ''loss'' \<mapsto> [1], ''val_loss'' \<mapsto> [1]]\<rparr>"

definition quiet :: env where
  "quiet = \<lparr>raises = (\<lambda>_ _. None), fit_returns = (\<lambda>_ _ _. one_epoch)\<rparr>"

text \<open>Libraries in which \<open>fit\<close> raises and nothing else does.\<close>

definition fit_fails :: env where
  "fit_fails =
     \<lparr>raises = (\<lambda>_ c. case c of Fit _ _ \<Rightarrow> Some (LibraryError ''InvalidArgumentError'')
                          | _ \<Rightarrow> None),
      fit_returns = (\<lambda>_ _ _. one_epoch)\<rparr>"

text \<open>A dataset of one training and one test example, two classes.\<close>

definition tiny_dataset :: dataset_dict where
  "tiny_dataset =
     [''train'' \<mapsto> \<lparr>embedding = Some [[1 / 2, 1 / 4]], label = Some [1]\<rparr>,
      ''test'' \<mapsto> \<lparr>embedding = Some [[3 / 4, 1]], label = Some [0]\<rparr>]"

text \<open>The world after \<open>FacialDetectionModel(input_shape=(2,), num_classes=2)\<close>.\<close>

definition fresh :: world where
  "fresh =
     \<lparr>this = \<lparr>model = None, input_shape = [2], num_classes = 2, log_dir = ''./logs''\<rparr>,
      datasets = (\<lambda>_. Map.empty)(0 := tiny_dataset),
      fs = [''./logs'' \<mapsto> Dir],
      trace = [],
      raised = []\<rparr>"

text \<open>The same instance once its model has been built and compiled.\<close>

definition built :: world where
  "built =
     fresh\<lparr>this := (this fresh)\<lparr>model :=
       Some \<lparr>layers = model_layers (this fresh),
             compiled = Some (compile_args (1 / 1000))\<rparr>\<rparr>\<rparr>"



section \<open>Runs in which no library call raises\<close>

lemma ext_run:
  "never_raises E \<Longrightarrow> r w = Inr a \<Longrightarrow> ext E c r w = (Inr a, w\<lparr>trace := trace w @ [c]\<rparr>)"
  by (simp add: ext_def never_raises_def)

lemma exts_run: "never_raises E \<Longrightarrow> exts E cs w = (Inr (), w\<lparr>trace := trace w @ cs\<rparr>)"
proof (induction cs arbitrary: w)
  case Nil
  then show ?case by (simp add: py_return_def)
next
  case (Cons c cs)
  then show ?case
    by (simp add: py_then_def py_bind_def ext_run)
qed

lemma to_categorical_in_range:
  assumes "0 < n" and "list_all (\<lambda>l. 0 \<le> l \<and> l < n) ls"
  shows "to_categorical ls n = Inr (map (one_hot_row n) ls)"
proof -
  from assms(2) have "list_all (\<lambda>l. - n \<le> l \<and> l < n) ls"
    by (induction ls) auto
  with assms(1) show ?thesis
    by (simp add: to_categorical_def)
qed

lemma length_one_hot_row: "length (one_hot_row n l) = nat n"
  by (simp add: one_hot_row_def)

lemma one_hot_row_nth:
  assumes "0 \<le> l" and "l < n" and "j < nat n"
  shows "one_hot_row n l ! j = (if j = nat l then 1 else 0)"
  using assms by (auto simp: one_hot_row_def nth_list_update)

lemma prepare_dataset_run:
  assumes E: "never_raises E"
    and tr: "datasets w d ''train'' = Some \<lparr>embedding = Some Xtr, label = Some ytr\<rparr>"
    and te: "datasets w d ''test'' = Some \<lparr>embedding = Some Xte, label = Some yte\<rparr>"
    and ctr: "to_categorical ytr (num_classes (this w)) = Inr ctr"
    and cte: "to_categorical yte (num_classes (this w)) = Inr cte"
  shows "prepare_dataset E d w =
           (Inr (Xtr, ctr, Xte, cte),
            w\<lparr>trace := trace w @ prepare_calls Xtr ytr Xte yte (num_classes (this w))\<rparr>)"
  using tr te ctr cte
  by (simp add: prepare_dataset_def array_of_embedding_def array_of_label_def getitem_split_def
      py_bind_def ext_run[OF E] get_this_def py_return_def prepare_calls_def)

lemma build_model_run:
  assumes E: "never_raises E"
  shows "build_model E lr w =
           (Inr (),
            w\<lparr>this := (this w)\<lparr>model :=
                 Some \<lparr>layers = model_layers (this w),
                       compiled = Some (compile_args (case lr of None \<Rightarrow> 1 / 1000 | Some r \<Rightarrow> r))\<rparr>\<rparr>,
              trace := trace w @ assembly_calls (this w) @
                 compilation_calls (this w) (case lr of None \<Rightarrow> 1 / 1000 | Some r \<Rightarrow> r)\<rparr>)"
  by (simp add: build_model_def Let_def py_bind_def py_then_def get_this_def set_model_def
      exts_run[OF E] ext_run[OF E] assembly_calls_def compilation_calls_def del: exts.simps)


lemma train_run:
  assumes E: "never_raises E"
    and tr: "datasets w d ''train'' = Some \<lparr>embedding = Some Xtr, label = Some ytr\<rparr>"
    and te: "datasets w d ''test'' = Some \<lparr>embedding = Some Xte, label = Some yte\<rparr>"
    and ctr: "to_categorical ytr (num_classes (this w)) = Inr ctr"
    and cte: "to_categorical yte (num_classes (this w)) = Inr cte"
    and args: "args = \<lparr>fit_x = Xtr, fit_y = ctr, fit_validation_data = (Xte, cte),
                 fit_epochs = (case ep of None \<Rightarrow> 100 | Some n \<Rightarrow> n),
                 fit_batch_size = (case bs of None \<Rightarrow> 8 | Some n \<Rightarrow> n),
                 fit_callbacks = four_callbacks (log_dir (this w)), fit_verbose = 1\<rparr>"
    and w1: "w1 = w\<lparr>this := (this w)\<lparr>model := Some (fitted_model (this w))\<rparr>,
                   trace := trace w @ calls_before_fit (this w) Xtr ytr Xte yte\<rparr>"
  shows "train E d ep bs w =
           (Inr (fit_returns E w1 (fitted_model (this w)) args),
            w1\<lparr>trace := trace w1 @ [Fit (fitted_model (this w)) args]\<rparr>)"
proof (cases "model (this w)")
  case None
  then show ?thesis
    unfolding args w1
    by (simp add: train_def Let_def py_bind_def prepare_dataset_run[OF E tr te ctr cte]
        py_then_def get_this_def build_model_run[OF E] exts_run[OF E] ext_run[OF E]
        fitted_model_def calls_before_fit_def callback_calls_def four_callbacks_def
        del: exts.simps)
next
  case (Some m)
  have "(this w)\<lparr>model := Some m\<rparr> = (this w)\<lparr>model := model (this w)\<rparr>"
    by (simp only: Some)
  then have same: "(this w)\<lparr>model := Some m\<rparr> = this w"
    by simp
  from Some show ?thesis
    unfolding args w1
    by (simp add: same add: train_def Let_def py_bind_def prepare_dataset_run[OF E tr te ctr cte]
        py_then_def get_this_def py_return_def exts_run[OF E] ext_run[OF E]
        fitted_model_def calls_before_fit_def callback_calls_def four_callbacks_def
        del: exts.simps)
qed



lemma run_tensorboard_run:
  assumes E: "never_raises E"
  shows "run_tensorboard E w =
           (Inr (Process [''tensorboard'', ''--logdir'', log_dir (this w)]),
            w\<lparr>trace := trace w @
               [Popen [''tensorboard'', ''--logdir'', log_dir (this w)],
                Print ''TensorBoard running. Open http://localhost:6006 in your browser.'']\<rparr>)"
  by (simp add: run_tensorboard_def py_then_def py_bind_def get_this_def ext_run[OF E] py_return_def)

section \<open>What a normal return implies\<close>

lemma py_bind_returns:
  "py_bind m f w = (Inr b, w') \<Longrightarrow> \<exists>a w1. m w = (Inr a, w1) \<and> f a w1 = (Inr b, w')"
  by (auto simp: py_bind_def split: prod.splits sum.splits)

lemma py_then_returns:
  "py_then m k w = (Inr b, w') \<Longrightarrow> \<exists>w1. m w = (Inr (), w1) \<and> k w1 = (Inr b, w')"
  by (auto simp: py_then_def dest: py_bind_returns)

lemma ext_returns:
  "ext E c r w = (Inr a, w') \<Longrightarrow> r w = Inr a \<and> w' = w\<lparr>trace := trace w @ [c]\<rparr>"
  by (auto simp: ext_def throw_def split: option.splits sum.splits)

lemma exts_returns: "exts E cs w = (Inr u, w') \<Longrightarrow> w' = w\<lparr>trace := trace w @ cs\<rparr>"
proof (induction cs arbitrary: w)
  case Nil
  then show ?case by (simp add: py_return_def)
next
  case (Cons c cs)
  from Cons.prems obtain w1 where 1: "ext E c (\<lambda>_. Inr ()) w = (Inr (), w1)"
    and 2: "exts E cs w1 = (Inr u, w')"
    by (auto dest: py_then_returns)
  from ext_returns[OF 1] Cons.IH[OF 2] show ?case by simp
qed

lemma build_model_returns:
  assumes "build_model E lr w = (Inr u, w')"
  shows "\<exists>c. model (this w') = Some \<lparr>layers = model_layers (this w), compiled = c\<rparr>"
  using assms
  by (auto simp: build_model_def Let_def get_this_def set_model_def throw_def py_return_def
      simp del: exts.simps
      dest!: py_bind_returns py_then_returns exts_returns ext_returns split: option.splits)

lemma units_last_model_layers: "units (last (model_layers self)) = Some (num_classes self)"
  by (simp add: model_layers_def units_def)

lemma never_raises_quiet: "never_raises quiet"
  by (simp add: never_raises_def quiet_def)

section \<open>What a method leaves as it is\<close>

lemma keeps_return: "keeps I (py_return a)"
  by (simp add: keeps_def py_return_def)

lemma keeps_get: "keeps I get_this"
  by (simp add: keeps_def get_this_def)

lemma keeps_bind: "keeps I m \<Longrightarrow> (\<And>a. keeps I (f a)) \<Longrightarrow> keeps I (py_bind m f)"
  unfolding keeps_def py_bind_def
  by (auto split: prod.splits sum.splits)

lemma keeps_then: "keeps I m \<Longrightarrow> keeps I k \<Longrightarrow> keeps I (py_then m k)"
  by (simp add: py_then_def keeps_bind)

lemma keeps_get_this:
  assumes "\<And>self. J self \<Longrightarrow> keeps I (f self)" and "\<And>w. I w \<Longrightarrow> J (this w)"
  shows "keeps I (py_bind get_this f)"
  using assms unfolding keeps_def py_bind_def get_this_def by auto

lemma frame_throw: "keeps (frame w0 P M) (throw e)"
  by (simp add: keeps_def frame_def throw_def)

lemma frame_ext: "P c \<Longrightarrow> keeps (frame w0 P M) (ext E c r)"
  by (auto simp: keeps_def frame_def ext_def throw_def split: option.splits sum.splits)

lemma frame_exts: "list_all P cs \<Longrightarrow> keeps (frame w0 P M) (exts E cs)"
  by (induction cs) (auto intro: keeps_return keeps_then frame_ext)

lemma frame_set_model: "M m \<Longrightarrow> keeps (frame w0 P M) (set_model m)"
  by (simp add: keeps_def frame_def set_model_def)

lemma frame_getitem_split: "keeps (frame w0 P M) (getitem_split d k)"
  by (simp add: keeps_def frame_def getitem_split_def throw_def split: option.splits)

lemma frame_history_getitem: "keeps (frame w0 P M) (history_getitem h k)"
  by (simp add: history_getitem_def frame_throw keeps_return split: option.splits)

lemmas frame_intros = keeps_return keeps_get keeps_bind keeps_then frame_throw frame_ext
  frame_exts frame_set_model frame_getitem_split frame_history_getitem

lemma frame_calls_of:
  assumes "frame w0 P M (snd (m w0))"
  shows "list_all P (calls_of m w0)"
  using assms by (auto simp: frame_def calls_of_def)

lemma frame_prepare_dataset:
  assumes "\<And>xs. P (NpArrayEmbedding xs)" "\<And>xs. P (NpArrayLabel xs)"
    and "\<And>xs n. P (ToCategorical xs n)"
  shows "keeps (frame w0 P M) (prepare_dataset E d)"
  unfolding prepare_dataset_def array_of_embedding_def array_of_label_def
  by (auto intro!: frame_intros simp: assms split: option.split)

lemma frame_build_model:
  assumes "\<And>l. P (NewLayer l)" "\<And>ls. P (Sequential ls)" "\<And>opt. P (NewOptimizer opt)"
    and "\<And>x. P (NewMetric x)" "\<And>m c. P (Compile m c)" "\<And>m. P (Summary m)"
    and "P (Print ''None'')" and "\<And>m. M (Some m)"
  shows "keeps (frame w0 P M) (build_model E lr)"
  unfolding build_model_def Let_def
  by (auto intro!: frame_intros simp: assms list_all_iff simp del: exts.simps split: option.split)

lemma keeps_bind_ext_value:
  assumes "keeps I (ext E c (\<lambda>_. Inr v))" and "keeps I (f v)"
  shows "keeps I (py_bind (ext E c (\<lambda>_. Inr v)) f)"
  using assms unfolding keeps_def py_bind_def
  by (auto simp: ext_def throw_def split: prod.splits sum.splits option.splits)

lemma frame_train:
  assumes "\<And>xs. P (NpArrayEmbedding xs)" "\<And>xs. P (NpArrayLabel xs)"
    and "\<And>xs n. P (ToCategorical xs n)"
    and "list_all P (callback_calls (log_dir (this w0)))"
    and "\<And>m a. P (Fit m a)"
    and "M None \<Longrightarrow> keeps (frame w0 P M) (build_model E None)"
  shows "keeps (frame w0 P M) (train E d ep bs)"
proof -
  let ?J = "\<lambda>self. M (model self) \<and> log_dir self = log_dir (this w0)"
  have J: "?J (this w)" if "frame w0 P M w" for w
    using that by (simp add: frame_def)
  note cb = assms(4)[unfolded callback_calls_def, simplified]
  show ?thesis
    unfolding train_def Let_def
    apply (intro keeps_bind frame_prepare_dataset assms(1-3))
    apply (simp split: prod.split del: exts.simps)
    apply (intro allI impI keeps_get_this[where J="?J"] J)
    apply (intro keeps_then)
     apply (auto intro!: frame_intros assms(6))[1]
    apply (intro keeps_get_this[where J="?J"] J)
    apply (rule keeps_then)
      apply (rule frame_exts)
      apply (simp add: cb)
     apply (rule keeps_bind_ext_value)
      apply (rule frame_ext)
      apply (simp add: cb)
     apply (rule keeps_then)
      apply (rule frame_ext)
      apply (simp add: cb)
     apply (auto intro!: frame_intros simp: assms(5) split: option.split)
    done
qed

lemma frame_plot_training_history:
  assumes "\<And>v1 v2 v3 v4. list_all P (plot_calls v1 v2 v3 v4)"
  shows "keeps (frame w0 P M) (plot_training_history E h)"
  using assms unfolding plot_training_history_def
  by (auto intro!: frame_intros simp: plot_calls_def simp del: exts.simps)

lemma frame_run_tensorboard:
  assumes "\<And>args. P (Popen args)" and "\<And>text. P (Print text)"
  shows "keeps (frame w0 P M) (run_tensorboard E)"
  unfolding run_tensorboard_def
  by (auto intro!: frame_intros simp: assms)

lemma frame_init_calls:
  "calls_of (init E a b c) w = [] \<or>
   calls_of (init E a b c) w = [OsMakedirs (case c of None \<Rightarrow> ''./logs'' | Some x \<Rightarrow> x) True]"
  by (auto simp: calls_of_def init_def Let_def py_then_def py_bind_def set_this_def ext_def
      throw_def set_fs_def split: option.splits sum.splits)

lemma any_frame: "frame w (\<lambda>_. True) (\<lambda>x. x = model (this w)) w"
  by (simp add: frame_def)

lemma calls_satisfy:
  assumes "keeps (frame w P (\<lambda>_. True)) m"
  shows "list_all P (calls_of m w)"
proof -
  have "frame w P (\<lambda>_. True) w"
    by (simp add: frame_def)
  with assms have "frame w P (\<lambda>_. True) (snd (m w))"
    by (simp add: keeps_def)
  then show ?thesis
    by (rule frame_calls_of)
qed

lemma os_path_join_best_model:
  "os_path_join a ''best_model.keras'' =
     (if a = [] \<or> last a = CHR ''/'' then a @ ''best_model.keras''
      else a @ ''/best_model.keras'')"
  by (simp add: os_path_join_def)

section \<open>Exceptions are not caught\<close>

lemma propagates_return: "propagates (py_return a)"
  by (simp add: propagates_def py_return_def)

lemma propagates_throw: "propagates (throw e)"
  by (simp add: propagates_def throw_def)

lemma propagates_bind:
  assumes m: "propagates m" and f: "\<And>a. propagates (f a)"
  shows "propagates (py_bind m f)"
  unfolding propagates_def
proof (intro allI impI)
  fix w :: world
  assume w: "raised w = []"
  obtain r w1 where mw: "m w = (r, w1)"
    by (cases "m w")
  show "case py_bind m f w of (Inl e, w') \<Rightarrow> raised w' = [e] | (Inr a, w') \<Rightarrow> raised w' = []"
  proof (cases r)
    case (Inl e)
    from m[unfolded propagates_def, rule_format, OF w] have "raised w1 = [e]"
      by (simp add: mw Inl)
    then show ?thesis
      by (simp add: py_bind_def mw Inl)
  next
    case (Inr a)
    from m[unfolded propagates_def, rule_format, OF w] have "raised w1 = []"
      by (simp add: mw Inr)
    from f[of a, unfolded propagates_def, rule_format, OF this] show ?thesis
      by (simp add: py_bind_def mw Inr)
  qed
qed

lemma propagates_then: "propagates m \<Longrightarrow> propagates k \<Longrightarrow> propagates (py_then m k)"
  by (simp add: py_then_def propagates_bind)

lemma propagates_ext: "propagates (ext E c r)"
  by (auto simp: propagates_def ext_def throw_def split: option.splits sum.splits)

lemma propagates_exts: "propagates (exts E cs)"
  by (induction cs) (auto intro: propagates_return propagates_then propagates_ext)

lemma propagates_get_this: "propagates get_this"
  by (simp add: propagates_def get_this_def)

lemma propagates_set_this: "propagates (set_this s)"
  by (simp add: propagates_def set_this_def)

lemma propagates_set_model: "propagates (set_model m)"
  by (simp add: propagates_def set_model_def)

lemma propagates_set_fs: "propagates (set_fs f)"
  by (simp add: propagates_def set_fs_def)

lemma propagates_getitem_split: "propagates (getitem_split d k)"
  by (simp add: propagates_def getitem_split_def throw_def split: option.splits)

lemma propagates_history_getitem: "propagates (history_getitem h k)"
  by (simp add: history_getitem_def propagates_throw propagates_return split: option.splits)

lemmas propagates_intros = propagates_return propagates_throw propagates_bind propagates_then
  propagates_ext propagates_exts propagates_get_this propagates_set_this propagates_set_model
  propagates_set_fs propagates_getitem_split propagates_history_getitem

lemma propagates_init: "propagates (init E a b c)"
  unfolding init_def Let_def by (intro propagates_intros)

lemma propagates_prepare_dataset: "propagates (prepare_dataset E d)"
  unfolding prepare_dataset_def array_of_embedding_def array_of_label_def
  by (auto intro!: propagates_intros split: option.split)

lemma propagates_build_model: "propagates (build_model E lr)"
  unfolding build_model_def Let_def
  by (auto intro!: propagates_intros simp del: exts.simps split: option.split)

lemma propagates_train: "propagates (train E d ep bs)"
  unfolding train_def Let_def
  by (auto intro!: propagates_intros propagates_prepare_dataset propagates_build_model
      simp del: exts.simps split: option.split prod.split)

lemma propagates_plot_training_history: "propagates (plot_training_history E h)"
  unfolding plot_training_history_def
  by (auto intro!: propagates_intros simp del: exts.simps)

lemma propagates_run_tensorboard: "propagates (run_tensorboard E)"
  unfolding run_tensorboard_def
  by (auto intro!: propagates_intros)

lemma fit_fails_run:
  "train fit_fails 0 None None fresh =
     (Inl (LibraryError ''InvalidArgumentError''),
      fresh\<lparr>this := (this fresh)\<lparr>model := Some (fitted_model (this fresh))\<rparr>,
            trace := calls_before_fit (this fresh) [[1 / 2, 1 / 4]] [1] [[3 / 4, 1]] [0],
            raised := [LibraryError ''InvalidArgumentError'']\<rparr>)"
  by (simp add: train_def Let_def py_bind_def py_then_def prepare_dataset_def
      array_of_embedding_def array_of_label_def getitem_split_def get_this_def ext_def
      build_model_def set_model_def py_return_def throw_def to_categorical_def one_hot_row_def
      fit_fails_def fresh_def tiny_dataset_def fitted_model_def calls_before_fit_def
      prepare_calls_def assembly_calls_def compilation_calls_def callback_calls_def
      model_layers_def)

section \<open>Further facts about the runs\<close>

lemma build_model_returns_world:
  assumes "build_model E lr w = (Inr u, w')"
  shows "w' = w\<lparr>this := (this w)\<lparr>model :=
                 Some \<lparr>layers = model_layers (this w),
                       compiled = Some (compile_args (case lr of None \<Rightarrow> 1 / 1000 | Some r \<Rightarrow> r))\<rparr>\<rparr>,
              trace := trace w @ assembly_calls (this w) @
                 compilation_calls (this w) (case lr of None \<Rightarrow> 1 / 1000 | Some r \<Rightarrow> r)\<rparr>"
  using assms
  by (auto simp: build_model_def Let_def get_this_def set_model_def throw_def py_return_def
      assembly_calls_def compilation_calls_def
      simp del: exts.simps
      dest!: py_bind_returns py_then_returns exts_returns ext_returns split: option.splits)

lemma this_prepare_dataset: "this (snd (prepare_dataset E d w)) = this w"
proof -
  have "keeps (frame w (\<lambda>_. True) (\<lambda>x. x = model (this w))) (prepare_dataset E d)"
    by (rule frame_prepare_dataset) simp_all
  with any_frame[of w]
  have "frame w (\<lambda>_. True) (\<lambda>x. x = model (this w)) (snd (prepare_dataset E d w))"
    by (simp add: keeps_def)
  then show ?thesis
    by (simp add: frame_def)
qed

lemma train_returns_model:
  assumes "train E d ep bs w = (Inr h, w')"
  shows "model (this w') = Some (fitted_model (this w))"
proof -
  from assms obtain r w1 where p: "prepare_dataset E d w = (Inr r, w1)"
    unfolding train_def Let_def by (auto dest!: py_bind_returns)
  from this_prepare_dataset[of E d w] p have w1: "this w1 = this w"
    by simp
  from assms p show ?thesis
    unfolding train_def Let_def
    by (auto simp: py_bind_def py_then_def get_this_def py_return_def throw_def w1 fitted_model_def
        simp del: exts.simps
        dest!: build_model_returns_world exts_returns ext_returns
        split: prod.splits sum.splits option.splits if_splits)
qed

lemma train_reuses:
  assumes "model (this w) = Some m"
  shows "model (this (snd (train E d ep bs w))) = Some m"
    and "list_all no_build (calls_of (train E d ep bs) w)"
proof -
  let ?I = "frame w no_build (\<lambda>x. x = Some m)"
  have "keeps ?I (train E d ep bs)"
    by (rule frame_train)
      (simp_all add: no_build_def assembles_def compiles_def callback_calls_def)
  moreover have "?I w"
    using assms by (simp add: frame_def)
  ultimately have I: "?I (snd (train E d ep bs w))"
    by (simp add: keeps_def)
  then show "model (this (snd (train E d ep bs w))) = Some m"
    by (simp add: frame_def)
  from I show "list_all no_build (calls_of (train E d ep bs) w)"
    by (rule frame_calls_of)
qed

lemma train_quiet_fresh:
  "train quiet 0 None None fresh =
     (Inr one_epoch,
      fresh\<lparr>this := (this fresh)\<lparr>model := Some (fitted_model (this fresh))\<rparr>,
            trace := calls_before_fit (this fresh) [[1 / 2, 1 / 4]] [1] [[3 / 4, 1]] [0] @
              [Fit (fitted_model (this fresh))
                 \<lparr>fit_x = [[1 / 2, 1 / 4]], fit_y = [[0, 1]],
                  fit_validation_data = ([[3 / 4, 1]], [[1, 0]]),
                  fit_epochs = 100, fit_batch_size = 8,
                  fit_callbacks = four_callbacks ''./logs'', fit_verbose = 1\<rparr>]\<rparr>)"
proof -
  have tr: "datasets fresh 0 ''train'' = Some \<lparr>embedding = Some [[1 / 2, 1 / 4]], label = Some [1]\<rparr>"
    and te: "datasets fresh 0 ''test'' = Some \<lparr>embedding = Some [[3 / 4, 1]], label = Some [0]\<rparr>"
    and ctr: "to_categorical [1] (num_classes (this fresh)) = Inr [[0, 1]]"
    and cte: "to_categorical [0] (num_classes (this fresh)) = Inr [[1, 0]]"
    by (simp_all add: fresh_def tiny_dataset_def to_categorical_def one_hot_row_def
        numeral_2_eq_2)
  show ?thesis
    using train_run[OF never_raises_quiet tr te ctr cte refl refl, of None None]
    by (simp add: quiet_def fresh_def)
qed

lemma frame_same_but_model:
  assumes "keeps (frame w P (\<lambda>_. True)) m"
  shows "same_but_model (this (snd (m w))) (this w)"
proof -
  have "frame w P (\<lambda>_. True) w"
    by (simp add: frame_def)
  with assms have "frame w P (\<lambda>_. True) (snd (m w))"
    by (simp add: keeps_def)
  then show ?thesis
    by (simp add: frame_def same_but_model_def)
qed




lemma to_categorical_rows:
  assumes "to_categorical ls n = Inr rows"
  shows "length rows = length ls"
    and "i < length ls \<Longrightarrow> 0 \<le> ls ! i \<Longrightarrow> ls ! i < n \<Longrightarrow> rows ! i = one_hot_row n (ls ! i)"
  using assms by (auto simp: to_categorical_def Let_def split: if_splits)

lemma one_hot_row_entries:
  assumes "0 \<le> l" and "l < n"
  shows "length (one_hot_row n l) = nat n \<and>
         (\<forall>j<nat n. one_hot_row n l ! j = (if int j = l then 1 else 0))"
proof -
  have "int j = l \<longleftrightarrow> j = nat l" for j
    using assms by auto
  with one_hot_row_nth[OF assms] show ?thesis
    by (simp add: length_one_hot_row)
qed

lemma prepare_dataset_returns:
  assumes "prepare_dataset E d w = (Inr (X1, y1, X2, y2), w')"
    and "datasets w d ''train'' = Some \<lparr>embedding = Some Xtr, label = Some ytr\<rparr>"
    and "datasets w d ''test'' = Some \<lparr>embedding = Some Xte, label = Some yte\<rparr>"
  shows "X1 = Xtr \<and> X2 = Xte \<and> to_categorical ytr (num_classes (this w)) = Inr y1 \<and>
         to_categorical yte (num_classes (this w)) = Inr y2"
  using assms
  by (auto simp: prepare_dataset_def array_of_embedding_def array_of_label_def getitem_split_def
      get_this_def py_return_def throw_def
      dest!: py_bind_returns ext_returns split: option.splits)

lemma prepare_dataset_returns_world:
  assumes "prepare_dataset E d w = (Inr (X1, c1, X2, c2), w')"
  shows "\<exists>y1 y2. w' = w\<lparr>trace := trace w @ prepare_calls X1 y1 X2 y2 (num_classes (this w))\<rparr> \<and>
           to_categorical y1 (num_classes (this w)) = Inr c1 \<and>
           to_categorical y2 (num_classes (this w)) = Inr c2"
  using assms
  apply (auto simp: prepare_dataset_def array_of_embedding_def array_of_label_def getitem_split_def
      get_this_def py_return_def throw_def prepare_calls_def
      dest!: py_bind_returns ext_returns split: option.splits)
  apply (intro exI conjI)
    apply (rule refl)
   apply assumption+
  done

lemma train_returns_after:
  assumes t: "train E d ep bs w = (Inr h, w')"
    and p: "prepare_dataset E d w = (Inr (X1, c1, X2, c2), wp)"
    and wp: "wp = w\<lparr>trace := trace w @ prepare_calls X1 y1 X2 y2 (num_classes (this w))\<rparr>"
    and w1: "w1 = w\<lparr>this := (this w)\<lparr>model := Some (fitted_model (this w))\<rparr>,
                   trace := trace w @ calls_before_fit (this w) X1 y1 X2 y2\<rparr>"
    and a: "a = fit_arguments X1 c1 X2 c2 ep bs (log_dir (this w))"
  shows "h = fit_returns E w1 (fitted_model (this w)) a \<and>
         w' = w1\<lparr>trace := trace w1 @ [Fit (fitted_model (this w)) a]\<rparr>"
proof (cases "model (this w)")
  case None
  with t show ?thesis
    unfolding train_def Let_def w1 a
    by (auto simp: py_bind_def[of "prepare_dataset E d"] p wp py_then_def get_this_def
        throw_def fitted_model_def calls_before_fit_def callback_calls_def fit_arguments_def
        four_callbacks_def
        simp del: exts.simps
        dest!: py_bind_returns build_model_returns_world exts_returns ext_returns)
next
  case (Some m)
  have "(this w)\<lparr>model := Some m\<rparr> = (this w)\<lparr>model := model (this w)\<rparr>"
    by (simp only: Some)
  then have same: "(this w)\<lparr>model := Some m\<rparr> = this w"
    by simp
  from t Some show ?thesis
    unfolding train_def Let_def w1 a
    by (auto simp: py_bind_def[of "prepare_dataset E d"] p wp py_then_def get_this_def
        py_return_def throw_def fitted_model_def calls_before_fit_def callback_calls_def
        fit_arguments_def four_callbacks_def same
        simp del: exts.simps
        dest!: py_bind_returns exts_returns ext_returns)
qed

lemma train_returns:
  assumes "train E d ep bs w = (Inr h, w')"
  shows "\<exists>X1 y1 X2 y2 c1 c2.
           to_categorical y1 (num_classes (this w)) = Inr c1 \<and>
           to_categorical y2 (num_classes (this w)) = Inr c2 \<and>
           calls_of (train E d ep bs) w =
             calls_before_fit (this w) X1 y1 X2 y2 @
             [Fit (fitted_model (this w)) (fit_arguments X1 c1 X2 c2 ep bs (log_dir (this w)))] \<and>
           h = fit_returns E
                 (w\<lparr>this := (this w)\<lparr>model := Some (fitted_model (this w))\<rparr>,
                    trace := trace w @ calls_before_fit (this w) X1 y1 X2 y2\<rparr>)
                 (fitted_model (this w)) (fit_arguments X1 c1 X2 c2 ep bs (log_dir (this w)))"
proof -
  from assms obtain r wp where p: "prepare_dataset E d w = (Inr r, wp)"
    unfolding train_def Let_def by (auto dest!: py_bind_returns)
  obtain X1 c1 X2 c2 where r: "r = (X1, c1, X2, c2)"
    by (cases r)
  from prepare_dataset_returns_world[OF p[unfolded r]] obtain y1 y2 where
    wp: "wp = w\<lparr>trace := trace w @ prepare_calls X1 y1 X2 y2 (num_classes (this w))\<rparr>"
    and c: "to_categorical y1 (num_classes (this w)) = Inr c1"
      "to_categorical y2 (num_classes (this w)) = Inr c2"
    by blast
  note after = train_returns_after[OF assms p[unfolded r] wp refl refl]
  have "calls_of (train E d ep bs) w =
      calls_before_fit (this w) X1 y1 X2 y2 @
      [Fit (fitted_model (this w)) (fit_arguments X1 c1 X2 c2 ep bs (log_dir (this w)))]"
    using after by (simp add: calls_of_def assms)
  with c after show ?thesis
    by blast
qed

lemma train_returns_with_model:
  assumes m: "model (this w) = Some m" and t: "train E d ep bs w = (Inr h, w')"
  shows "\<exists>X1 y1 X2 y2 c1 c2 w1.
           to_categorical y1 (num_classes (this w)) = Inr c1 \<and>
           to_categorical y2 (num_classes (this w)) = Inr c2 \<and>
           calls_of (train E d ep bs) w =
             prepare_calls X1 y1 X2 y2 (num_classes (this w)) @
             callback_calls (log_dir (this w)) @
             [Fit m (fit_arguments X1 c1 X2 c2 ep bs (log_dir (this w)))] \<and>
           model (this w1) = Some m \<and>
           trace w1 = trace w @ prepare_calls X1 y1 X2 y2 (num_classes (this w)) @
             callback_calls (log_dir (this w)) \<and>
           h = fit_returns E w1 m (fit_arguments X1 c1 X2 c2 ep bs (log_dir (this w)))"
proof -
  have f: "fitted_model (this w) = m"
    by (simp add: fitted_model_def m)
  from train_returns[OF t] obtain X1 y1 X2 y2 c1 c2 where
    c: "to_categorical y1 (num_classes (this w)) = Inr c1"
      "to_categorical y2 (num_classes (this w)) = Inr c2"
    and calls: "calls_of (train E d ep bs) w =
        calls_before_fit (this w) X1 y1 X2 y2 @
        [Fit m (fit_arguments X1 c1 X2 c2 ep bs (log_dir (this w)))]"
    and h: "h = fit_returns E
        (w\<lparr>this := (this w)\<lparr>model := Some m\<rparr>,
           trace := trace w @ calls_before_fit (this w) X1 y1 X2 y2\<rparr>)
        m (fit_arguments X1 c1 X2 c2 ep bs (log_dir (this w)))"
    unfolding f by blast
  let ?w1 = "w\<lparr>this := (this w)\<lparr>model := Some m\<rparr>,
      trace := trace w @ calls_before_fit (this w) X1 y1 X2 y2\<rparr>"
  have b: "calls_before_fit (this w) X1 y1 X2 y2 =
      prepare_calls X1 y1 X2 y2 (num_classes (this w)) @ callback_calls (log_dir (this w))"
    by (simp add: calls_before_fit_def m)
  have "model (this ?w1) = Some m"
    and "trace ?w1 = trace w @ prepare_calls X1 y1 X2 y2 (num_classes (this w)) @
        callback_calls (log_dir (this w))"
    by (simp_all add: b)
  with c calls[unfolded b] h show ?thesis
    by (intro exI[of _ X1] exI[of _ y1] exI[of _ X2] exI[of _ y2] exI[of _ c1] exI[of _ c2]
        exI[of _ ?w1]) simp
qed

lemma train_returns_without_model:
  assumes m: "model (this w) = None" and t: "train E d ep bs w = (Inr h, w')"
  shows "\<exists>X1 y1 X2 y2 c1 c2 w1.
           to_categorical y1 (num_classes (this w)) = Inr c1 \<and>
           to_categorical y2 (num_classes (this w)) = Inr c2 \<and>
           calls_of (train E d ep bs) w =
             prepare_calls X1 y1 X2 y2 (num_classes (this w)) @
             assembly_calls (this w) @ compilation_calls (this w) (1 / 1000) @
             callback_calls (log_dir (this w)) @
             [Fit \<lparr>layers = model_layers (this w), compiled = Some (compile_args (1 / 1000))\<rparr>
                (fit_arguments X1 c1 X2 c2 ep bs (log_dir (this w)))] \<and>
           h = fit_returns E w1
                 \<lparr>layers = model_layers (this w), compiled = Some (compile_args (1 / 1000))\<rparr>
                 (fit_arguments X1 c1 X2 c2 ep bs (log_dir (this w)))"
proof -
  have f: "fitted_model (this w) =
      \<lparr>layers = model_layers (this w), compiled = Some (compile_args (1 / 1000))\<rparr>"
    by (simp add: fitted_model_def m)
  have b: "calls_before_fit (this w) X1 y1 X2 y2 @ cs =
      prepare_calls X1 y1 X2 y2 (num_classes (this w)) @
      assembly_calls (this w) @ compilation_calls (this w) (1 / 1000) @
      callback_calls (log_dir (this w)) @ cs" for X1 y1 X2 y2 cs
    by (simp add: calls_before_fit_def m)
  from train_returns[OF t] show ?thesis
    unfolding f b by blast
qed

section \<open>Properties\<close>

text \<open>
  C1: for every integer label \<open>l\<close> with \<open>0 \<le> l < num_classes\<close>, \<open>prepare_dataset\<close> encodes \<open>l\<close> as
  a vector of length \<open>num_classes\<close> with 1 at index \<open>l\<close> and 0 at every other index, for every
  train and test label. On a dataset that has both splits with both columns:
  whenever \<open>prepare_dataset\<close> returns, it returns the embeddings as they are and one row per
  label, and the row of every label in that range is such a vector; and it does return when
  every label is in the range, the class count is positive and no library call raises. (A
  positive class count follows from any label being in range; it is asked for because of the
  dataset without examples.)
\<close>

theorem prepare_dataset_one_hot:
  assumes "datasets w d ''train'' = Some \<lparr>embedding = Some Xtr, label = Some ytr\<rparr>"
    and "datasets w d ''test'' = Some \<lparr>embedding = Some Xte, label = Some yte\<rparr>"
  shows "(never_raises E \<and> 0 < num_classes (this w) \<and>
          list_all (\<lambda>l. 0 \<le> l \<and> l < num_classes (this w)) (ytr @ yte) \<longrightarrow>
            (\<exists>y_train y_test w'.
               prepare_dataset E d w = (Inr (Xtr, y_train, Xte, y_test), w'))) \<and>
         (prepare_dataset E d w = (Inr (X_train, y_train, X_test, y_test), w') \<longrightarrow>
            X_train = Xtr \<and> X_test = Xte \<and>
            length y_train = length ytr \<and> length y_test = length yte \<and>
            (\<forall>i<length ytr. 0 \<le> ytr ! i \<and> ytr ! i < num_classes (this w) \<longrightarrow>
               length (y_train ! i) = nat (num_classes (this w)) \<and>
               (\<forall>j<nat (num_classes (this w)).
                  y_train ! i ! j = (if int j = ytr ! i then 1 else 0))) \<and>
            (\<forall>i<length yte. 0 \<le> yte ! i \<and> yte ! i < num_classes (this w) \<longrightarrow>
               length (y_test ! i) = nat (num_classes (this w)) \<and>
               (\<forall>j<nat (num_classes (this w)).
                  y_test ! i ! j = (if int j = yte ! i then 1 else 0))))"
proof (intro conjI impI)
  let ?n = "num_classes (this w)"
  assume h: "never_raises E \<and> 0 < ?n \<and> list_all (\<lambda>l. 0 \<le> l \<and> l < ?n) (ytr @ yte)"
  then have tr: "list_all (\<lambda>l. 0 \<le> l \<and> l < ?n) ytr"
    and te: "list_all (\<lambda>l. 0 \<le> l \<and> l < ?n) yte" and E: "never_raises E" and n: "0 < ?n"
    by simp_all
  from prepare_dataset_run[OF E assms to_categorical_in_range[OF n tr]
      to_categorical_in_range[OF n te]]
  show "\<exists>y_train y_test w'. prepare_dataset E d w = (Inr (Xtr, y_train, Xte, y_test), w')"
    by blast
next
  let ?n = "num_classes (this w)"
  assume "prepare_dataset E d w = (Inr (X_train, y_train, X_test, y_test), w')"
  note r = prepare_dataset_returns[OF this assms]
  then have ctr: "to_categorical ytr ?n = Inr y_train" and cte: "to_categorical yte ?n = Inr y_test"
    by simp_all
  from r show "X_train = Xtr" and "X_test = Xte"
    by simp_all
  show "length y_train = length ytr" and "length y_test = length yte"
    by (rule to_categorical_rows(1)[OF ctr], rule to_categorical_rows(1)[OF cte])
  show "\<forall>i<length ytr. 0 \<le> ytr ! i \<and> ytr ! i < ?n \<longrightarrow>
      length (y_train ! i) = nat ?n \<and>
      (\<forall>j<nat ?n. y_train ! i ! j = (if int j = ytr ! i then 1 else 0))"
    using to_categorical_rows(2)[OF ctr] one_hot_row_entries by simp
  show "\<forall>i<length yte. 0 \<le> yte ! i \<and> yte ! i < ?n \<longrightarrow>
      length (y_test ! i) = nat ?n \<and>
      (\<forall>j<nat ?n. y_test ! i ! j = (if int j = yte ! i then 1 else 0))"
    using to_categorical_rows(2)[OF cte] one_hot_row_entries by simp
qed

theorem prepare_dataset_one_hot_witness:
  "datasets fresh 0 ''train'' = Some \<lparr>embedding = Some [[1 / 2, 1 / 4]], label = Some [1]\<rparr> \<and>
   datasets fresh 0 ''test'' = Some \<lparr>embedding = Some [[3 / 4, 1]], label = Some [0]\<rparr> \<and>
   never_raises quiet \<and> 0 < num_classes (this fresh) \<and>
   list_all (\<lambda>l. 0 \<le> l \<and> l < num_classes (this fresh)) ([1] @ [0]) \<and>
   (\<exists>y_train y_test w'.
      prepare_dataset quiet 0 fresh = (Inr ([[1 / 2, 1 / 4]], y_train, [[3 / 4, 1]], y_test), w') \<and>
      y_train ! 0 ! 0 = 0 \<and> y_train ! 0 ! 1 = 1 \<and> y_test ! 0 ! 0 = 1 \<and> y_test ! 0 ! 1 = 0)"
proof -
  have h1: "datasets fresh 0 ''train'' = Some \<lparr>embedding = Some [[1 / 2, 1 / 4]], label = Some [1]\<rparr>"
    and h2: "datasets fresh 0 ''test'' = Some \<lparr>embedding = Some [[3 / 4, 1]], label = Some [0]\<rparr>"
    and h4: "0 < num_classes (this fresh)"
    and h5: "list_all (\<lambda>l. 0 \<le> l \<and> l < num_classes (this fresh)) ([1] @ [0])"
    by (simp_all add: fresh_def tiny_dataset_def)
  have n: "num_classes (this fresh) = 2"
    by (simp add: fresh_def)
  note inst = prepare_dataset_one_hot[OF h1 h2, of quiet]
  from inst never_raises_quiet h4 h5 obtain y_train y_test w' where
    run: "prepare_dataset quiet 0 fresh = (Inr ([[1 / 2, 1 / 4]], y_train, [[3 / 4, 1]], y_test), w')"
    by blast
  from inst[of "[[1 / 2, 1 / 4]]" y_train "[[3 / 4, 1]]" y_test w'] run
  have tr: "\<forall>j<nat 2. y_train ! 0 ! j = (if int j = 1 then 1 else 0)"
    and te: "\<forall>j<nat 2. y_test ! 0 ! j = (if int j = 0 then 1 else 0)"
    unfolding n by simp_all
  from tr have "y_train ! 0 ! 0 = 0" "y_train ! 0 ! 1 = 1"
    by auto
  moreover from te have "y_test ! 0 ! 0 = 1" "y_test ! 0 ! 1 = 0"
    by auto
  ultimately show ?thesis
    using never_raises_quiet h1 h2 h4 h5 run by blast
qed

text \<open>
  C2: the width of the output (final) layer of the model \<open>build_model\<close> builds equals
  \<open>num_classes\<close>, whatever \<open>num_classes\<close> is: whenever \<open>build_model\<close> returns, \<open>self.model\<close> is a
  model whose layers are the list of the source and whose last layer has \<open>num_classes\<close>
  units; and it returns when no library call raises.
\<close>

theorem build_model_output_width:
  "(never_raises E \<longrightarrow> (\<exists>w'. build_model E lr w = (Inr (), w'))) \<and>
   (build_model E lr w = (Inr u, w') \<longrightarrow>
      (\<exists>m. model (this w') = Some m \<and> layers m = model_layers (this w) \<and>
           units (last (layers m)) = Some (num_classes (this w))))"
  using build_model_run[of E lr w] build_model_returns[of E lr w u w']
  by (auto simp: units_last_model_layers)

theorem build_model_output_width_witness:
  "never_raises quiet \<and>
   (\<exists>w'. build_model quiet None fresh = (Inr (), w') \<and>
        (\<exists>m. model (this w') = Some m \<and> layers m = model_layers (this fresh) \<and>
             units (last (layers m)) = Some 2))"
proof -
  note inst = build_model_output_width[of quiet None fresh]
  from inst never_raises_quiet obtain w' where run: "build_model quiet None fresh = (Inr (), w')"
    by blast
  have "num_classes (this fresh) = 2"
    by (simp add: fresh_def)
  with inst[of "()" w'] run never_raises_quiet show ?thesis
    by auto
qed

text \<open>
  C4: in every operation of the class (\<open>__init__\<close>, \<open>prepare_dataset\<close>, \<open>build_model\<close>, \<open>train\<close>,
  \<open>plot_training_history\<close>, \<open>run_tensorboard\<close>) a failure raised inside a library call reaches the
  caller unchanged: started with no exception raised, the operation ends with an exception
  exactly when one exception was raised, that very one, and returns exactly when none was.
  Nothing is caught, retried, recovered from or translated.
\<close>

theorem exceptions_propagate:
  "propagates (init E a b c) \<and> propagates (prepare_dataset E d) \<and>
   propagates (build_model E lr) \<and> propagates (train E d ep bs) \<and>
   propagates (plot_training_history E h) \<and> propagates (run_tensorboard E)"
  by (intro conjI propagates_init propagates_prepare_dataset propagates_build_model
      propagates_train propagates_plot_training_history propagates_run_tensorboard)

theorem exceptions_propagate_witness:
  "raised fresh = [] \<and>
   fst (train fit_fails 0 None None fresh) = Inl (LibraryError ''InvalidArgumentError'') \<and>
   raised (snd (train fit_fails 0 None None fresh)) = [LibraryError ''InvalidArgumentError'']"
proof -
  have h: "raised fresh = []"
    by (simp add: fresh_def)
  have "propagates (train fit_fails 0 None None)"
    by (rule exceptions_propagate[THEN conjunct2, THEN conjunct2, THEN conjunct2, THEN conjunct1])
  note p = this[unfolded propagates_def, rule_format, OF h]
  obtain r w' where t: "train fit_fails 0 None None fresh = (r, w')"
    by (cases "train fit_fails 0 None None fresh")
  have r: "r = Inl (LibraryError ''InvalidArgumentError'')"
    using fit_fails_run t by simp
  from p have "raised w' = [LibraryError ''InvalidArgumentError'']"
    by (simp add: t r)
  with h t r show ?thesis
    by simp
qed

text \<open>
  C5: \<open>prepare_dataset\<close> only reads the dataset: after it (whether it returned or raised) every
  dataset object, with its splits and columns, is what it was; so are the instance and the
  file system.
\<close>

theorem prepare_dataset_read_only:
  "datasets (snd (prepare_dataset E d w)) = datasets w \<and>
   this (snd (prepare_dataset E d w)) = this w \<and>
   fs (snd (prepare_dataset E d w)) = fs w"
proof -
  have "keeps (frame w (\<lambda>_. True) (\<lambda>x. x = model (this w))) (prepare_dataset E d)"
    by (rule frame_prepare_dataset) simp_all
  with any_frame[of w]
  have "frame w (\<lambda>_. True) (\<lambda>x. x = model (this w)) (snd (prepare_dataset E d w))"
    by (simp add: keeps_def)
  then show ?thesis
    by (simp add: frame_def)
qed

text \<open>
  C6: the only paths the class hands to a library that writes files are the log directory
  (for the TensorBoard event files), the checkpoint file \<open>best_model.keras\<close> under the log
  directory, both in \<open>train\<close>, and \<open>training_history.png\<close> in \<open>plot_training_history\<close>; the other
  operations name no file to write. The code supplies these paths and names only; the files
  are written by the libraries.
\<close>

theorem file_artifacts:
  "list_all (writes_within []) (calls_of (init E a b c) w) \<and>
   list_all (writes_within []) (calls_of (prepare_dataset E d) w) \<and>
   list_all (writes_within []) (calls_of (build_model E lr) w) \<and>
   list_all (writes_within [log_dir (this w), os_path_join (log_dir (this w)) ''best_model.keras''])
     (calls_of (train E d ep bs) w) \<and>
   list_all (writes_within [''training_history.png'']) (calls_of (plot_training_history E h) w) \<and>
   list_all (writes_within []) (calls_of (run_tensorboard E) w) \<and>
   prefix (log_dir (this w)) (os_path_join (log_dir (this w)) ''best_model.keras'') \<and>
   suffix ''best_model.keras'' (os_path_join (log_dir (this w)) ''best_model.keras'')"
proof -
  let ?dirs = "[log_dir (this w), os_path_join (log_dir (this w)) ''best_model.keras'']"
  have 1: "list_all (writes_within []) (calls_of (init E a b c) w)"
    using frame_init_calls[of E a b c w] by (auto simp: writes_within_def)
  have 2: "list_all (writes_within []) (calls_of (prepare_dataset E d) w)"
    by (rule calls_satisfy, rule frame_prepare_dataset) (simp_all add: writes_within_def)
  have build: "keeps (frame w (writes_within ps) (\<lambda>_. True)) (build_model E lr')" for ps lr'
    by (rule frame_build_model) (simp_all add: writes_within_def)
  have 3: "list_all (writes_within []) (calls_of (build_model E lr) w)"
    by (rule calls_satisfy, rule build)
  have 4: "list_all (writes_within ?dirs) (calls_of (train E d ep bs) w)"
    by (rule calls_satisfy, rule frame_train)
      (simp_all add: writes_within_def callback_calls_def build)
  have 5: "list_all (writes_within [''training_history.png''])
        (calls_of (plot_training_history E h) w)"
    by (rule calls_satisfy, rule frame_plot_training_history)
      (simp add: writes_within_def plot_calls_def)
  have 6: "list_all (writes_within []) (calls_of (run_tensorboard E) w)"
    by (rule calls_satisfy, rule frame_run_tensorboard) (simp_all add: writes_within_def)
  have 7: "prefix (log_dir (this w)) (os_path_join (log_dir (this w)) ''best_model.keras'')"
    and 8: "suffix ''best_model.keras'' (os_path_join (log_dir (this w)) ''best_model.keras'')"
    by (simp_all add: os_path_join_best_model suffix_def)
  from 1 2 3 4 5 6 7 8 show ?thesis
    by (intro conjI)
qed




text \<open>
  C7, as stated: no operation of the class introduces concurrency. \<open>run_tensorboard\<close> does: it
  starts the TensorBoard server as a child process with \<open>subprocess.Popen\<close> and returns the
  process object at once, leaving the server running beside the caller.
\<close>

theorem run_tensorboard_spawns_counterexample:
  "fst (run_tensorboard quiet fresh) = Inr (Process [''tensorboard'', ''--logdir'', ''./logs'']) \<and>
   list_ex spawns (calls_of (run_tensorboard quiet) fresh)"
  by (simp add: run_tensorboard_run[OF never_raises_quiet] calls_of_def spawns_def fresh_def)

text \<open>
  C7, amended: \<open>__init__\<close>, \<open>prepare_dataset\<close>, \<open>build_model\<close>, \<open>train\<close> and
  \<open>plot_training_history\<close> are sequences of library calls none of which starts a process; after
  \<open>__init__\<close> the only attribute of the instance an operation changes is \<open>model\<close>.
  \<open>run_tensorboard\<close> starts TensorBoard as a child process, prints a notice and returns the
  process object without waiting for it.
\<close>

theorem synchronous_except_run_tensorboard:
  "list_all synchronous (calls_of (init E a b c) w) \<and>
   list_all synchronous (calls_of (prepare_dataset E d) w) \<and>
   list_all synchronous (calls_of (build_model E lr) w) \<and>
   list_all synchronous (calls_of (train E d ep bs) w) \<and>
   list_all synchronous (calls_of (plot_training_history E h) w) \<and>
   same_but_model (this (snd (prepare_dataset E d w))) (this w) \<and>
   same_but_model (this (snd (build_model E lr w))) (this w) \<and>
   same_but_model (this (snd (train E d ep bs w))) (this w) \<and>
   same_but_model (this (snd (plot_training_history E h w))) (this w) \<and>
   same_but_model (this (snd (run_tensorboard E w))) (this w) \<and>
   (never_raises E \<longrightarrow>
      run_tensorboard E w =
        (Inr (Process [''tensorboard'', ''--logdir'', log_dir (this w)]),
         w\<lparr>trace := trace w @
            [Popen [''tensorboard'', ''--logdir'', log_dir (this w)],
             Print ''TensorBoard running. Open http://localhost:6006 in your browser.'']\<rparr>))"
proof -
  have 1: "list_all synchronous (calls_of (init E a b c) w)"
    using frame_init_calls[of E a b c w] by (auto simp: synchronous_def spawns_def)
  have p: "keeps (frame w synchronous (\<lambda>_. True)) (prepare_dataset E d)"
    by (rule frame_prepare_dataset) (simp_all add: synchronous_def spawns_def)
  have b: "keeps (frame w synchronous (\<lambda>_. True)) (build_model E lr')" for lr'
    by (rule frame_build_model) (simp_all add: synchronous_def spawns_def)
  have t: "keeps (frame w synchronous (\<lambda>_. True)) (train E d ep bs)"
    by (rule frame_train) (simp_all add: synchronous_def spawns_def callback_calls_def b)
  have g: "keeps (frame w synchronous (\<lambda>_. True)) (plot_training_history E h)"
    by (rule frame_plot_training_history) (simp add: synchronous_def spawns_def plot_calls_def)
  have r: "keeps (frame w (\<lambda>_. True) (\<lambda>_. True)) (run_tensorboard E)"
    by (rule frame_run_tensorboard) simp_all
  note calls = 1 calls_satisfy[OF p] calls_satisfy[OF b] calls_satisfy[OF t] calls_satisfy[OF g]
  note same = frame_same_but_model[OF p] frame_same_but_model[OF b] frame_same_but_model[OF t]
    frame_same_but_model[OF g] frame_same_but_model[OF r]
  from calls same show ?thesis
    by (intro conjI impI run_tensorboard_run)
qed

theorem synchronous_except_run_tensorboard_witness:
  "never_raises quiet \<and>
   run_tensorboard quiet fresh =
     (Inr (Process [''tensorboard'', ''--logdir'', ''./logs'']),
      fresh\<lparr>trace :=
         [Popen [''tensorboard'', ''--logdir'', ''./logs''],
          Print ''TensorBoard running. Open http://localhost:6006 in your browser.'']\<rparr>)"
proof -
  have "log_dir (this fresh) = ''./logs''" and "trace fresh = []"
    by (simp_all add: fresh_def)
  with synchronous_except_run_tensorboard[of quiet _ _ _ fresh 0 None None None one_epoch]
    never_raises_quiet
  show ?thesis
    by simp
qed



text \<open>
  C9: \<open>train\<close> builds and compiles the model only when \<open>self.model\<close> is \<open>None\<close>, with the
  default learning rate \<open>1e-3\<close> of \<open>build_model\<close> (\<open>train\<close> has no learning-rate parameter), and
  any later \<open>train\<close> on the instance reuses the existing compiled model. In turn:
  with a model present, \<open>train\<close> keeps it and makes no call of assembly or compilation,
  whatever the libraries do; with none, a \<open>train\<close> that returns has built the model of
  \<open>build_model\<close> compiled with \<open>Adam(1e-3)\<close>; after a \<open>train\<close> that returned, a further \<open>train\<close>
  keeps that model and does not build; a \<open>train\<close> that returns with a model present has made
  exactly the calls of \<open>prepare_dataset\<close>, the callbacks and one \<open>fit\<close> on that very model,
  and returns what that \<open>fit\<close> returned; a \<open>train\<close> that returns with no model present has
  assembled and compiled in between and fitted the compiled model; in two calls in a row
  that return, the model the second one fits is the one the first one left (the model it
  found, or the compiled one it built), and it is still the instance's model afterwards;
  and \<open>train\<close> does return when no library call raises and the labels can be encoded.
\<close>

theorem train_builds_once:
  "(model (this w) = Some m \<longrightarrow>
      model (this (snd (train E d ep bs w))) = Some m \<and>
      list_all no_build (calls_of (train E d ep bs) w)) \<and>
   (model (this w) = None \<and> train E d ep bs w = (Inr h, w') \<longrightarrow>
      model (this w') =
        Some \<lparr>layers = model_layers (this w), compiled = Some (compile_args (1 / 1000))\<rparr> \<and>
      optimizer (compile_args (1 / 1000)) = Adam (1 / 1000) 1) \<and>
   (train E d ep bs w = (Inr h, w') \<longrightarrow>
      (\<exists>m'. model (this w') = Some m' \<and>
            model (this (snd (train E' d' ep' bs' w'))) = Some m' \<and>
            list_all no_build (calls_of (train E' d' ep' bs') w'))) \<and>
   (model (this w) = Some m \<and> train E d ep bs w = (Inr h, w') \<longrightarrow>
      (\<exists>X1 y1 X2 y2 c1 c2 w1.
         to_categorical y1 (num_classes (this w)) = Inr c1 \<and>
         to_categorical y2 (num_classes (this w)) = Inr c2 \<and>
         calls_of (train E d ep bs) w =
           prepare_calls X1 y1 X2 y2 (num_classes (this w)) @
           callback_calls (log_dir (this w)) @
           [Fit m (fit_arguments X1 c1 X2 c2 ep bs (log_dir (this w)))] \<and>
         model (this w1) = Some m \<and>
         trace w1 = trace w @ prepare_calls X1 y1 X2 y2 (num_classes (this w)) @
           callback_calls (log_dir (this w)) \<and>
         h = fit_returns E w1 m (fit_arguments X1 c1 X2 c2 ep bs (log_dir (this w))))) \<and>
   (model (this w) = None \<and> train E d ep bs w = (Inr h, w') \<longrightarrow>
      (\<exists>X1 y1 X2 y2 c1 c2 w1.
         to_categorical y1 (num_classes (this w)) = Inr c1 \<and>
         to_categorical y2 (num_classes (this w)) = Inr c2 \<and>
         calls_of (train E d ep bs) w =
           prepare_calls X1 y1 X2 y2 (num_classes (this w)) @
           assembly_calls (this w) @ compilation_calls (this w) (1 / 1000) @
           callback_calls (log_dir (this w)) @
           [Fit \<lparr>layers = model_layers (this w), compiled = Some (compile_args (1 / 1000))\<rparr>
              (fit_arguments X1 c1 X2 c2 ep bs (log_dir (this w)))] \<and>
         h = fit_returns E w1
               \<lparr>layers = model_layers (this w), compiled = Some (compile_args (1 / 1000))\<rparr>
               (fit_arguments X1 c1 X2 c2 ep bs (log_dir (this w))))) \<and>
   (train E d ep bs w = (Inr h, w') \<and> train E' d' ep' bs' w' = (Inr h', w'') \<longrightarrow>
      (\<exists>m' X1 y1 X2 y2 c1 c2 w1.
         model (this w') = Some m' \<and>
         (model (this w) = Some m \<longrightarrow> m' = m) \<and>
         (model (this w) = None \<longrightarrow>
            m' = \<lparr>layers = model_layers (this w),
                   compiled = Some (compile_args (1 / 1000))\<rparr>) \<and>
         to_categorical y1 (num_classes (this w')) = Inr c1 \<and>
         to_categorical y2 (num_classes (this w')) = Inr c2 \<and>
         calls_of (train E' d' ep' bs') w' =
           prepare_calls X1 y1 X2 y2 (num_classes (this w')) @
           callback_calls (log_dir (this w')) @
           [Fit m' (fit_arguments X1 c1 X2 c2 ep' bs' (log_dir (this w')))] \<and>
         model (this w1) = Some m' \<and>
         h' = fit_returns E' w1 m' (fit_arguments X1 c1 X2 c2 ep' bs' (log_dir (this w'))) \<and>
         model (this w'') = Some m')) \<and>
   (never_raises E \<and>
    datasets w d ''train'' = Some \<lparr>embedding = Some Xtr, label = Some ytr\<rparr> \<and>
    datasets w d ''test'' = Some \<lparr>embedding = Some Xte, label = Some yte\<rparr> \<and>
    to_categorical ytr (num_classes (this w)) = Inr ctr \<and>
    to_categorical yte (num_classes (this w)) = Inr cte \<longrightarrow>
      (\<exists>h0 w0. train E d ep bs w = (Inr h0, w0)))"
proof (intro conjI impI)
  assume "model (this w) = Some m"
  then show "model (this (snd (train E d ep bs w))) = Some m"
    and "list_all no_build (calls_of (train E d ep bs) w)"
    by (rule train_reuses)+
next
  assume "model (this w) = None \<and> train E d ep bs w = (Inr h, w')"
  then show "model (this w') =
      Some \<lparr>layers = model_layers (this w), compiled = Some (compile_args (1 / 1000))\<rparr>"
    using train_returns_model[of E d ep bs w h w'] by (simp add: fitted_model_def)
next
  show "optimizer (compile_args (1 / 1000)) = Adam (1 / 1000) 1"
    by (simp add: compile_args_def)
next
  assume "train E d ep bs w = (Inr h, w')"
  then have "model (this w') = Some (fitted_model (this w))"
    by (rule train_returns_model)
  with train_reuses[of w' "fitted_model (this w)" E' d' ep' bs']
  show "\<exists>m'. model (this w') = Some m' \<and>
            model (this (snd (train E' d' ep' bs' w'))) = Some m' \<and>
            list_all no_build (calls_of (train E' d' ep' bs') w')"
    by blast
next
  assume "model (this w) = Some m \<and> train E d ep bs w = (Inr h, w')"
  then show "\<exists>X1 y1 X2 y2 c1 c2 w1.
         to_categorical y1 (num_classes (this w)) = Inr c1 \<and>
         to_categorical y2 (num_classes (this w)) = Inr c2 \<and>
         calls_of (train E d ep bs) w =
           prepare_calls X1 y1 X2 y2 (num_classes (this w)) @
           callback_calls (log_dir (this w)) @
           [Fit m (fit_arguments X1 c1 X2 c2 ep bs (log_dir (this w)))] \<and>
         model (this w1) = Some m \<and>
         trace w1 = trace w @ prepare_calls X1 y1 X2 y2 (num_classes (this w)) @
           callback_calls (log_dir (this w)) \<and>
         h = fit_returns E w1 m (fit_arguments X1 c1 X2 c2 ep bs (log_dir (this w)))"
    using train_returns_with_model[of w m E d ep bs h w'] by simp
next
  assume "model (this w) = None \<and> train E d ep bs w = (Inr h, w')"
  then show "\<exists>X1 y1 X2 y2 c1 c2 w1.
         to_categorical y1 (num_classes (this w)) = Inr c1 \<and>
         to_categorical y2 (num_classes (this w)) = Inr c2 \<and>
         calls_of (train E d ep bs) w =
           prepare_calls X1 y1 X2 y2 (num_classes (this w)) @
           assembly_calls (this w) @ compilation_calls (this w) (1 / 1000) @
           callback_calls (log_dir (this w)) @
           [Fit \<lparr>layers = model_layers (this w), compiled = Some (compile_args (1 / 1000))\<rparr>
              (fit_arguments X1 c1 X2 c2 ep bs (log_dir (this w)))] \<and>
         h = fit_returns E w1
               \<lparr>layers = model_layers (this w), compiled = Some (compile_args (1 / 1000))\<rparr>
               (fit_arguments X1 c1 X2 c2 ep bs (log_dir (this w)))"
    using train_returns_without_model[of w E d ep bs h w'] by simp
next
  assume a: "train E d ep bs w = (Inr h, w') \<and> train E' d' ep' bs' w' = (Inr h', w'')"
  let ?m = "fitted_model (this w)"
  from a have 0: "train E d ep bs w = (Inr h, w')"
    by simp
  have 1: "model (this w') = Some ?m"
    by (rule train_returns_model[OF 0])
  from a have 2: "train E' d' ep' bs' w' = (Inr h', w'')"
    by simp
  have "fitted_model (this w') = ?m"
    by (simp add: fitted_model_def[of "this w'"] 1)
  with train_returns_model[OF 2] have 3: "model (this w'') = Some ?m"
    by simp
  have 4: "model (this w) = Some m \<longrightarrow> ?m = m"
    and 5: "model (this w) = None \<longrightarrow>
      ?m = \<lparr>layers = model_layers (this w), compiled = Some (compile_args (1 / 1000))\<rparr>"
    by (simp_all add: fitted_model_def)
  from train_returns_with_model[OF 1 2] obtain X1 y1 X2 y2 c1 c2 w1 where
    f: "to_categorical y1 (num_classes (this w')) = Inr c1"
      "to_categorical y2 (num_classes (this w')) = Inr c2"
      "calls_of (train E' d' ep' bs') w' =
         prepare_calls X1 y1 X2 y2 (num_classes (this w')) @
         callback_calls (log_dir (this w')) @
         [Fit ?m (fit_arguments X1 c1 X2 c2 ep' bs' (log_dir (this w')))]"
      "model (this w1) = Some ?m"
      "h' = fit_returns E' w1 ?m (fit_arguments X1 c1 X2 c2 ep' bs' (log_dir (this w')))"
    by (elim exE conjE)
  show "\<exists>m' X1 y1 X2 y2 c1 c2 w1.
         model (this w') = Some m' \<and>
         (model (this w) = Some m \<longrightarrow> m' = m) \<and>
         (model (this w) = None \<longrightarrow>
            m' = \<lparr>layers = model_layers (this w),
                   compiled = Some (compile_args (1 / 1000))\<rparr>) \<and>
         to_categorical y1 (num_classes (this w')) = Inr c1 \<and>
         to_categorical y2 (num_classes (this w')) = Inr c2 \<and>
         calls_of (train E' d' ep' bs') w' =
           prepare_calls X1 y1 X2 y2 (num_classes (this w')) @
           callback_calls (log_dir (this w')) @
           [Fit m' (fit_arguments X1 c1 X2 c2 ep' bs' (log_dir (this w')))] \<and>
         model (this w1) = Some m' \<and>
         h' = fit_returns E' w1 m' (fit_arguments X1 c1 X2 c2 ep' bs' (log_dir (this w'))) \<and>
         model (this w'') = Some m'"
    by (intro exI[of _ ?m] exI[of _ X1] exI[of _ y1] exI[of _ X2] exI[of _ y2] exI[of _ c1]
        exI[of _ c2] exI[of _ w1] conjI 1 3 4 5 f)
next
  assume "never_raises E \<and>
    datasets w d ''train'' = Some \<lparr>embedding = Some Xtr, label = Some ytr\<rparr> \<and>
    datasets w d ''test'' = Some \<lparr>embedding = Some Xte, label = Some yte\<rparr> \<and>
    to_categorical ytr (num_classes (this w)) = Inr ctr \<and>
    to_categorical yte (num_classes (this w)) = Inr cte"
  then show "\<exists>h0 w0. train E d ep bs w = (Inr h0, w0)"
    using train_run[of E w d Xtr ytr Xte yte ctr cte _ ep bs, OF _ _ _ _ _ refl refl] by blast
qed

theorem train_builds_once_witness:
  "model (this fresh) = None \<and> never_raises quiet \<and>
   (\<exists>w' w'' X1 y1 X2 y2 c1 c2.
      train quiet 0 None None fresh = (Inr one_epoch, w') \<and>
      model (this w') =
        Some \<lparr>layers = model_layers (this fresh), compiled = Some (compile_args (1 / 1000))\<rparr> \<and>
      train quiet 0 None None w' = (Inr one_epoch, w'') \<and>
      calls_of (train quiet 0 None None) w' =
        prepare_calls X1 y1 X2 y2 2 @ callback_calls ''./logs'' @
        [Fit \<lparr>layers = model_layers (this fresh), compiled = Some (compile_args (1 / 1000))\<rparr>
           (fit_arguments X1 c1 X2 c2 None None ''./logs'')] \<and>
      list_all no_build (calls_of (train quiet 0 None None) w') \<and>
      model (this w'') =
        Some \<lparr>layers = model_layers (this fresh), compiled = Some (compile_args (1 / 1000))\<rparr>)"
proof -
  let ?W = "snd (train quiet 0 None None fresh)"
  let ?M = "\<lparr>layers = model_layers (this fresh), compiled = Some (compile_args (1 / 1000))\<rparr>"
  have none: "model (this fresh) = None"
    by (simp add: fresh_def)
  have fr: "fit_returns quiet = (\<lambda>_ _ _. one_epoch)"
    by (simp add: quiet_def)
  have run: "train quiet 0 None None fresh = (Inr one_epoch, ?W)"
    by (simp add: train_quiet_fresh)
  have W: "datasets ?W 0 ''train'' = Some \<lparr>embedding = Some [[1 / 2, 1 / 4]], label = Some [1]\<rparr>"
    "datasets ?W 0 ''test'' = Some \<lparr>embedding = Some [[3 / 4, 1]], label = Some [0]\<rparr>"
    "to_categorical [1] (num_classes (this ?W)) = Inr [[0, 1]]"
    "to_categorical [0] (num_classes (this ?W)) = Inr [[1, 0]]"
    "num_classes (this ?W) = 2" "log_dir (this ?W) = ''./logs''"
    unfolding train_quiet_fresh snd_conv
    by (simp_all add: fresh_def tiny_dataset_def to_categorical_def one_hot_row_def
        numeral_2_eq_2)
  have pre: "never_raises quiet \<and>
      datasets ?W 0 ''train'' = Some \<lparr>embedding = Some [[1 / 2, 1 / 4]], label = Some [1]\<rparr> \<and>
      datasets ?W 0 ''test'' = Some \<lparr>embedding = Some [[3 / 4, 1]], label = Some [0]\<rparr> \<and>
      to_categorical [1] (num_classes (this ?W)) = Inr [[0, 1]] \<and>
      to_categorical [0] (num_classes (this ?W)) = Inr [[1, 0]]"
    by (intro conjI never_raises_quiet W(1-4))
  note second = train_builds_once[where w = "?W" and E = quiet and d = 0 and ep = None
      and bs = None and Xtr = "[[1 / 2, 1 / 4]]" and ytr = "[1]" and Xte = "[[3 / 4, 1]]"
      and yte = "[0]" and ctr = "[[0, 1]]" and cte = "[[1, 0]]",
      THEN conjunct2, THEN conjunct2, THEN conjunct2, THEN conjunct2, THEN conjunct2,
      THEN conjunct2, THEN mp, OF pre]
  then obtain h0 w0 where again: "train quiet 0 None None ?W = (Inr h0, w0)"
    by (elim exE)
  note inst = train_builds_once[where w = fresh and E = quiet and d = 0 and ep = None
      and bs = None and h = one_epoch and w' = "?W" and E' = quiet and d' = 0 and ep' = None
      and bs' = None and h' = h0 and w'' = w0 and m = "?M"]
  from inst[THEN conjunct2, THEN conjunct1, THEN mp, OF conjI[OF none run]]
  have built: "model (this ?W) = Some ?M"
    by (rule conjunct1)
  from inst[THEN conjunct2, THEN conjunct2, THEN conjunct1, THEN mp, OF run]
  have no_build: "list_all no_build (calls_of (train quiet 0 None None) ?W)"
    by (elim exE conjE)
  from inst[THEN conjunct2, THEN conjunct2, THEN conjunct2, THEN conjunct2, THEN conjunct2,
      THEN conjunct1, THEN mp, OF conjI[OF run again]]
  obtain m' X1 y1 X2 y2 c1 c2 w1 where
    all: "model (this ?W) = Some m' \<and>
      (model (this fresh) = Some ?M \<longrightarrow> m' = ?M) \<and>
      (model (this fresh) = None \<longrightarrow> m' = ?M) \<and>
      to_categorical y1 (num_classes (this ?W)) = Inr c1 \<and>
      to_categorical y2 (num_classes (this ?W)) = Inr c2 \<and>
      calls_of (train quiet 0 None None) ?W =
        prepare_calls X1 y1 X2 y2 (num_classes (this ?W)) @
        callback_calls (log_dir (this ?W)) @
        [Fit m' (fit_arguments X1 c1 X2 c2 None None (log_dir (this ?W)))] \<and>
      model (this w1) = Some m' \<and>
      h0 = fit_returns quiet w1 m' (fit_arguments X1 c1 X2 c2 None None (log_dir (this ?W))) \<and>
      model (this w0) = Some m'"
    by (elim exE)
  note m' = all[THEN conjunct2, THEN conjunct2, THEN conjunct1]
  note calls = all[THEN conjunct2, THEN conjunct2, THEN conjunct2, THEN conjunct2,
      THEN conjunct2, THEN conjunct1]
  note h0 = all[THEN conjunct2, THEN conjunct2, THEN conjunct2, THEN conjunct2,
      THEN conjunct2, THEN conjunct2, THEN conjunct2, THEN conjunct1]
  note kept = all[THEN conjunct2, THEN conjunct2, THEN conjunct2, THEN conjunct2,
      THEN conjunct2, THEN conjunct2, THEN conjunct2, THEN conjunct2]
  from m' none have M: "m' = ?M"
    by simp
  from h0 have "h0 = one_epoch"
    by (simp add: fr)
  with again have 1: "train quiet 0 None None ?W = (Inr one_epoch, w0)"
    by simp
  from calls have 2: "calls_of (train quiet 0 None None) ?W =
        prepare_calls X1 y1 X2 y2 2 @ callback_calls ''./logs'' @
        [Fit ?M (fit_arguments X1 c1 X2 c2 None None ''./logs'')]"
    by (simp add: W(5,6) M)
  from kept have 3: "model (this w0) = Some ?M"
    by (simp add: M)
  show ?thesis
    by (intro conjI none never_raises_quiet exI[of _ ?W] exI[of _ w0] exI[of _ X1] exI[of _ y1]
        exI[of _ X2] exI[of _ y2] exI[of _ c1] exI[of _ c2] run built 1 2 3 no_build)
qed



end
